theory Spec2Isabelle
  imports Main
begin

section \<open>Strings as the JavaScript code uses them\<close>

text \<open>
  Strings are byte lists. The helpers below are the few string primitives of JavaScript
  that the request handlers of \<^verbatim>\<open>server.js\<close> rely on, restricted to ASCII.
\<close>

definition is_space :: "char \<Rightarrow> bool" where
  \<comment> \<open>the ASCII white space that \<^verbatim>\<open>String.prototype.trim\<close> and \<^verbatim>\<open>parseInt\<close> skip:
      TAB, LF, VT, FF, CR and the blank\<close>
  "is_space c = ((9::nat) \<le> of_char c \<and> of_char c \<le> (13::nat) \<or> c = CHR '' '')"

definition trim :: "string \<Rightarrow> string" where
  \<comment> \<open>\<^verbatim>\<open>s.trim()\<close>\<close>
  "trim s = rev (dropWhile is_space (rev (dropWhile is_space s)))"

definition or_empty :: "string option \<Rightarrow> string" where
  \<comment> \<open>\<^verbatim>\<open>x || ''\<close> for a value that is a string or undefined\<close>
  "or_empty x = (case x of None \<Rightarrow> [] | Some s \<Rightarrow> s)"

definition strip_trailing_slashes :: "string \<Rightarrow> string" where
  \<comment> \<open>\<^verbatim>\<open>s.replace(/\/+$/, '')\<close>\<close>
  "strip_trailing_slashes s = rev (dropWhile (\<lambda>c. c = CHR ''/'') (rev s))"

definition starts_with :: "string \<Rightarrow> string \<Rightarrow> bool" where
  \<comment> \<open>\<^verbatim>\<open>s.indexOf(p) === 0\<close>\<close>
  "starts_with p s = (take (length p) s = p)"

section \<open>Configuration, database rows, file system\<close>

text \<open>
  The module-level constants read from the process environment. \<open>ADMIN_PASSWORD\<close> falls
  back to a development default when the variable is unset or empty; the object-storage
  settings fall back to the empty string (bucket: \<^verbatim>\<open>music\<close>).
\<close>

record environment =
  env_ADMIN_PASSWORD :: "string option"
  env_SUPABASE_URL :: "string option"
  env_SUPABASE_SERVICE_KEY :: "string option"
  env_SUPABASE_BUCKET :: "string option"
  env_dirname :: string

definition env_or :: "string option \<Rightarrow> string \<Rightarrow> string" where
  \<comment> \<open>\<^verbatim>\<open>process.env.X || dflt\<close>\<close>
  "env_or x dflt = (case x of None \<Rightarrow> dflt | Some s \<Rightarrow> if s = [] then dflt else s)"

definition ADMIN_PASSWORD :: "environment \<Rightarrow> string" where
  "ADMIN_PASSWORD e = env_or (env_ADMIN_PASSWORD e) ''dev-admin-password''"

definition SUPABASE_URL :: "environment \<Rightarrow> string" where
  "SUPABASE_URL e = env_or (env_SUPABASE_URL e) []"

definition SUPABASE_SERVICE_KEY :: "environment \<Rightarrow> string" where
  "SUPABASE_SERVICE_KEY e = env_or (env_SUPABASE_SERVICE_KEY e) []"

definition SUPABASE_BUCKET :: "environment \<Rightarrow> string" where
  "SUPABASE_BUCKET e = env_or (env_SUPABASE_BUCKET e) ''music''"

text \<open>
  JSON values as \<^verbatim>\<open>express.json()\<close> delivers them in \<^verbatim>\<open>req.body\<close> (numbers restricted to
  integers). A field that is missing from the body is \<open>None\<close> at type \<open>json option\<close>.
\<close>

datatype json =
    JNull
  | JBool bool
  | JNum int
  | JStr string
  | JArr "json list"
  | JObj "(string \<times> json) list"

fun truthy :: "json option \<Rightarrow> bool" where
  "truthy None = False"
| "truthy (Some JNull) = False"
| "truthy (Some (JBool b)) = b"
| "truthy (Some (JNum n)) = (n \<noteq> 0)"
| "truthy (Some (JStr s)) = (s \<noteq> [])"
| "truthy (Some (JArr xs)) = True"
| "truthy (Some (JObj kvs)) = True"

text \<open>Rows of the two tables.\<close>

record user_row =
  user_id :: int
  user_email :: string
  user_password :: string
  user_likes :: "json option"
  user_playlists :: "json option"

record track_row =
  track_id :: int
  track_title :: string
  track_artist :: "string option"
  track_url :: string

text \<open>
  The state the handlers act on: the two tables, the sequence behind \<^verbatim>\<open>tracks.id\<close>, the
  set of paths that exist on the local disk, and the list of paths that were handed to
  \<^verbatim>\<open>fs.unlink\<close> or \<^verbatim>\<open>fs.unlinkSync\<close> (most recent last).
\<close>

record world =
  users :: "user_row list"
  tracks :: "track_row list"
  next_track_id :: int
  files :: "string set"
  unlink_calls :: "string list"

text \<open>
  What the surroundings do during one request: whether the file system refuses an unlink
  (permissions, busy file), and the message of the error a database statement raises, if
  it raises one. Messages that \<^verbatim>\<open>server.js\<close> writes in Russian are constructors of
  \<open>message\<close>; the argument is the text appended to the fixed part.
\<close>

datatype message =
    NoRights                       \<comment> \<open>403: no rights, wrong admin password\<close>
  | TitleRequired                  \<comment> \<open>400: title is required\<close>
  | FileRequired                   \<comment> \<open>400: an audio file (field \<^verbatim>\<open>file\<close>) is needed\<close>
  | TitleAndUrlRequired            \<comment> \<open>400: title and url are required\<close>
  | IdAndTitleRequired             \<comment> \<open>400: id and title are required\<close>
  | IdRequired                     \<comment> \<open>400: id is required\<close>
  | LikesMustBeArray               \<comment> \<open>400: likes must be an array\<close>
  | PlaylistsMustBeArray           \<comment> \<open>400: playlists must be an array\<close>
  | InvalidEmailOrPassword         \<comment> \<open>401: wrong email or password\<close>
  | TrackNotFound                  \<comment> \<open>404: track not found\<close>
  | StorageUploadFailed string     \<comment> \<open>500: could not upload the file to Supabase Storage, + text\<close>
  | StorageException string        \<comment> \<open>500: error while uploading to Supabase Storage, + e.message\<close>
  | DbError string                 \<comment> \<open>500: database error, + err.message\<close>
  | DbDeleteError string           \<comment> \<open>500: database error on delete, + err.message\<close>

datatype payload =
    ErrorBody message                              \<comment> \<open>\<^verbatim>\<open>{ error: ... }\<close>\<close>
  | TrackBody int string string string             \<comment> \<open>\<^verbatim>\<open>{ id, title, artist, url }\<close>\<close>
  | SuccessBody                                    \<comment> \<open>\<^verbatim>\<open>{ success: true }\<close>\<close>
  | SuccessLikes json                              \<comment> \<open>\<^verbatim>\<open>{ success: true, likes }\<close>\<close>
  | SuccessPlaylists json                          \<comment> \<open>\<^verbatim>\<open>{ success: true, playlists }\<close>\<close>
  | UserBody int string json json                  \<comment> \<open>\<^verbatim>\<open>{ id, email, likes, playlists }\<close>\<close>

datatype response = Response (status: nat) (body: payload)

definition fs_unlink :: "bool \<Rightarrow> string \<Rightarrow> world \<Rightarrow> world" where
  \<comment> \<open>\<^verbatim>\<open>fs.unlink(p, () => {})\<close> and \<^verbatim>\<open>try { fs.unlinkSync(p) } catch (e) {}\<close>: the path is
      removed unless the file system refuses; a missing path or a refusal is an error that
      the caller drops\<close>
  "fs_unlink refused p w =
     w\<lparr>files := (if refused then files w else files w - {p}),
       unlink_calls := unlink_calls w @ [p]\<rparr>"

section \<open>The upload pipeline: \<^verbatim>\<open>POST /api/tracks/upload\<close>\<close>

text \<open>
  The request as the handler sees it after \<^verbatim>\<open>upload.single('file')\<close> has run: the text
  fields of the multipart form (each a string or missing), the \<^verbatim>\<open>x-admin-password\<close>
  header, and \<^verbatim>\<open>req.file\<close>, present when the transport layer has staged a file.
\<close>

record staged_file =
  file_path :: string
  file_filename :: string
  file_mimetype :: "string option"

record upload_request =
  up_adminPassword :: "string option"
  up_title :: "string option"
  up_artist :: "string option"
  up_header_admin :: "string option"
  up_file :: "staged_file option"

text \<open>
  The outcome of the one \<^verbatim>\<open>fetch\<close> call to the object store: a response with its
  \<^verbatim>\<open>ok\<close> flag, status and body text (the empty text when reading the body fails), or an
  exception with its message.
\<close>

datatype fetch_outcome =
    FetchResponse bool nat string
  | FetchThrows string

record surroundings =
  unlink_refused :: bool
  fetch_result :: fetch_outcome
  db_fault :: "string option"

definition insert_track :: "surroundings \<Rightarrow> string \<Rightarrow> string \<Rightarrow> string \<Rightarrow> world \<Rightarrow> response \<times> world" where
  \<comment> \<open>lines 330-339: the INSERT into \<^verbatim>\<open>tracks\<close> with \<^verbatim>\<open>RETURNING id\<close>, and the reply\<close>
  "insert_track sur title artist finalUrl w =
     (case db_fault sur of
        Some m \<Rightarrow> (Response 500 (ErrorBody (DbError m)), w)
      | None \<Rightarrow>
          (Response 200 (TrackBody (next_track_id w) title artist finalUrl),
           w\<lparr>tracks := tracks w @
                  [\<lparr>track_id = next_track_id w, track_title = title,
                    track_artist = (if artist = [] then None else Some artist),
                    track_url = finalUrl\<rparr>],
             next_track_id := next_track_id w + 1\<rparr>))"

definition offload :: "environment \<Rightarrow> surroundings \<Rightarrow> staged_file \<Rightarrow> world \<Rightarrow> response + string" where
  \<comment> \<open>lines 286-323, the body of the \<^verbatim>\<open>try\<close>: \<open>Inl\<close> is the reply of a failed offload,
      \<open>Inr\<close> the public URL of the stored object\<close>
  "offload e sur f w =
     (let storagePath = SUPABASE_BUCKET e @ ''/'' @ file_filename f in
      if file_path f \<notin> files w then
        Inl (Response 500 (ErrorBody (StorageException ''ENOENT'')))
      else
        (case fetch_result sur of
           FetchThrows m \<Rightarrow> Inl (Response 500 (ErrorBody (StorageException m)))
         | FetchResponse ok st reply \<Rightarrow>
             if \<not> ok then Inl (Response 500 (ErrorBody (StorageUploadFailed reply)))
             else Inr (strip_trailing_slashes (SUPABASE_URL e) @
                       ''/storage/v1/object/public/'' @ storagePath)))"

definition falsy_string :: "string option \<Rightarrow> bool" where
  \<comment> \<open>\<^verbatim>\<open>!x\<close> for a value that is a string or undefined\<close>
  "falsy_string x = (x = None \<or> x = Some [])"

definition upload :: "environment \<Rightarrow> surroundings \<Rightarrow> upload_request \<Rightarrow> world \<Rightarrow> response \<times> world" where
  \<comment> \<open>lines 257-340, with \<^verbatim>\<open>adminPassword = req.body.adminPassword\<close>\<close>
  "upload e sur req w =
     (if falsy_string (up_adminPassword req) \<or>
         up_adminPassword req \<noteq> Some (ADMIN_PASSWORD e) then
        (Response 403 (ErrorBody NoRights),
         (case up_file req of
            None \<Rightarrow> w
          | Some f \<Rightarrow> fs_unlink (unlink_refused sur) (file_path f) w))
      else
        let title = trim (or_empty (up_title req));
            artist = trim (or_empty (up_artist req))
        in
        if title = [] then (Response 400 (ErrorBody TitleRequired), w)
        else
          (case up_file req of
             None \<Rightarrow> (Response 400 (ErrorBody FileRequired), w)
           | Some f \<Rightarrow>
               if SUPABASE_URL e \<noteq> [] \<and> SUPABASE_SERVICE_KEY e \<noteq> [] then
                 (case offload e sur f w of
                    Inl failure \<Rightarrow> (failure, fs_unlink (unlink_refused sur) (file_path f) w)
                  | Inr finalUrl \<Rightarrow>
                      insert_track sur title artist finalUrl
                        (fs_unlink (unlink_refused sur) (file_path f) w))
               else
                 insert_track sur title artist (''/uploads/'' @ file_filename f) w))"

section \<open>Names of staged files: the \<^verbatim>\<open>filename\<close> callback of \<^verbatim>\<open>multer.diskStorage\<close>\<close>

text \<open>
  \<^verbatim>\<open>path.extname\<close> and \<^verbatim>\<open>path.basename\<close> are Node's POSIX functions. Both work on the last
  component of the path, found after dropping trailing slashes. The extension runs from
  the last dot of that component to its end; it is empty when the component has no dot,
  when its only dot is its first character, and for the component \<^verbatim>\<open>..\<close>.
  \<^verbatim>\<open>path.basename(p, suffix)\<close> cuts a suffix off the component when the component ends with
  it and is longer than it. It returns the empty string when the whole path is the
  suffix, and the rest of the path from the component on (trailing slashes included) when
  the component is only a proper end of the suffix. Lengths are counted in characters of
  ASCII text.
\<close>

definition last_component :: "string \<Rightarrow> string" where
  "last_component p =
     rev (takeWhile (\<lambda>c. c \<noteq> CHR ''/'') (rev (strip_trailing_slashes p)))"

definition path_extname :: "string \<Rightarrow> string" where
  "path_extname p =
     (let c = last_component p;
          after = rev (takeWhile (\<lambda>x. x \<noteq> CHR ''.'') (rev c))
      in if CHR ''.'' \<notin> set c then []
         else if length after + 1 = length c then []
         else if c = ''..'' then []
         else CHR ''.'' # after)"

definition ends_with :: "string \<Rightarrow> string \<Rightarrow> bool" where
  "ends_with suffix s =
     (length suffix \<le> length s \<and> drop (length s - length suffix) s = suffix)"

definition path_basename :: "string \<Rightarrow> string \<Rightarrow> string" where
  "path_basename p suffix =
     (let c = last_component p;
          slashes = drop (length (strip_trailing_slashes p)) p
      in if suffix = [] \<or> length p < length suffix then c
         else if suffix = p then []
         else if ends_with suffix c then
           (if c = suffix then c else take (length c - length suffix) c)
         else if ends_with c suffix then c @ slashes
         else c)"

definition safe_char :: "char \<Rightarrow> bool" where
  \<comment> \<open>the characters that \<^verbatim>\<open>[^a-zA-Z0-9_\-]\<close> does not match\<close>
  "safe_char c =
     ((97::nat) \<le> of_char c \<and> of_char c \<le> (122::nat) \<or>
      (65::nat) \<le> of_char c \<and> of_char c \<le> (90::nat) \<or>
      (48::nat) \<le> of_char c \<and> of_char c \<le> (57::nat) \<or>
      c = CHR ''_'' \<or> c = CHR ''-'')"

definition sanitize :: "string \<Rightarrow> string" where
  \<comment> \<open>\<^verbatim>\<open>s.replace(/[^a-zA-Z0-9_\-]/g, '_')\<close>\<close>
  "sanitize s = map (\<lambda>c. if safe_char c then c else CHR ''_'') s"

definition digit_char :: "nat \<Rightarrow> char" where
  "digit_char d = ''0123456789'' ! d"

fun show_nat :: "nat \<Rightarrow> string" where
  \<comment> \<open>the decimal digits of a number, as \<^verbatim>\<open>Date.now() + '_'\<close> renders it\<close>
  "show_nat n =
     (if n < 10 then [digit_char n]
      else show_nat (n div 10) @ [digit_char (n mod 10)])"

declare show_nat.simps [simp del]

definition storage_filename :: "nat \<Rightarrow> string \<Rightarrow> string" where
  \<comment> \<open>lines 48-52; the first argument is \<^verbatim>\<open>Date.now()\<close>, the second \<^verbatim>\<open>file.originalname\<close>\<close>
  "storage_filename now originalname =
     (let ext = (if path_extname originalname = [] then ''.mp3''
                 else path_extname originalname);
          base = sanitize (path_basename originalname ext)
      in show_nat now @ ''_'' @ base @ ext)"

section \<open>The access guard and the route parameters\<close>

definition requireOwner :: "environment \<Rightarrow> json option \<Rightarrow> string option \<Rightarrow> bool" where
  \<comment> \<open>lines 90-96; the arguments are \<^verbatim>\<open>req.body.adminPassword\<close> and the
      \<^verbatim>\<open>x-admin-password\<close> header; \<open>True\<close> when \<^verbatim>\<open>next()\<close> is called, \<open>False\<close> when the
      middleware answers 403\<close>
  "requireOwner e body_token header_token =
     (let adminPassword =
            (if truthy body_token then body_token
             else Some (JStr (or_empty header_token)))
      in \<not> (\<not> truthy adminPassword \<or> adminPassword \<noteq> Some (JStr (ADMIN_PASSWORD e))))"

definition is_digit :: "char \<Rightarrow> bool" where
  "is_digit c = ((48::nat) \<le> of_char c \<and> of_char c \<le> (57::nat))"

definition digits_value :: "string \<Rightarrow> int" where
  "digits_value ds = foldl (\<lambda>a c. 10 * a + (int (of_char c) - 48)) 0 ds"

definition parseInt10 :: "string \<Rightarrow> int option" where
  \<comment> \<open>\<^verbatim>\<open>parseInt(s, 10)\<close>: leading white space, an optional sign, then the longest run of
      digits; \<open>None\<close> is \<^verbatim>\<open>NaN\<close>\<close>
  "parseInt10 s =
     (let t = dropWhile is_space s;
          negative = (take 1 t = ''-'');
          r = (if take 1 t = ''-'' \<or> take 1 t = ''+'' then drop 1 t else t);
          ds = takeWhile is_digit r
      in if ds = [] then None
         else Some (if negative then - digits_value ds else digits_value ds))"

section \<open>Deleting a track: \<^verbatim>\<open>DELETE /api/tracks/:id\<close>\<close>

text \<open>
  The handler runs two statements, a SELECT and a DELETE, and other requests may change
  the table between them: \<open>del_meanwhile\<close> is what they do to it.
\<close>

record delete_surroundings =
  del_select_fault :: "string option"
  del_meanwhile :: "track_row list \<Rightarrow> track_row list"
  del_delete_fault :: "string option"
  del_unlink_refused :: bool

text \<open>
  \<^verbatim>\<open>path.join\<close> is Node's POSIX function: the non-empty arguments are put together with a
  slash between them and the result is normalised. Normalising walks the segments between
  slashes: an empty segment and \<^verbatim>\<open>.\<close> are dropped, \<^verbatim>\<open>..\<close> removes the segment before it
  (at the root of an absolute path it is dropped, at the start of a relative path it is
  kept), and every other segment is kept. \<open>norm_step\<close> is one step of that walk on the
  segments kept so far, the latest first.
\<close>

fun split_on :: "char \<Rightarrow> string \<Rightarrow> string list" where
  "split_on c [] = [[]]"
| "split_on c (x # xs) =
     (if x = c then [] # split_on c xs
      else (case split_on c xs of
              [] \<Rightarrow> [[x]]
            | s # ss \<Rightarrow> (x # s) # ss))"

definition norm_step :: "bool \<Rightarrow> string list \<Rightarrow> string \<Rightarrow> string list" where
  "norm_step allowAboveRoot kept seg =
     (if seg = [] \<or> seg = ''.'' then kept
      else if seg = ''..'' then
        (case kept of
           [] \<Rightarrow> if allowAboveRoot then [''..''] else []
         | latest # below \<Rightarrow>
             if latest = ''..'' then (if allowAboveRoot then ''..'' # kept else kept)
             else below)
      else seg # kept)"

fun join_segments :: "string list \<Rightarrow> string" where
  "join_segments [] = []"
| "join_segments [s] = s"
| "join_segments (s # t # ss) = s @ ''/'' @ join_segments (t # ss)"

definition path_normalize :: "string \<Rightarrow> string" where
  "path_normalize p =
     (case p of
        [] \<Rightarrow> ''.''
      | c # cs \<Rightarrow>
          let isAbsolute = (c = CHR ''/'');
              trailingSeparator = (last (c # cs) = CHR ''/'');
              res = join_segments
                      (rev (foldl (norm_step (\<not> isAbsolute)) [] (split_on (CHR ''/'') (c # cs))))
          in if res = [] then
               (if isAbsolute then ''/'' else if trailingSeparator then ''./'' else ''.'')
             else (if isAbsolute then ''/'' else []) @ res @
                  (if trailingSeparator then ''/'' else []))"

definition path_join :: "string \<Rightarrow> string \<Rightarrow> string" where
  \<comment> \<open>\<^verbatim>\<open>path.join(a, b)\<close>\<close>
  "path_join a b =
     (if a = [] \<and> b = [] then ''.''
      else path_normalize (if a = [] then b else if b = [] then a else a @ ''/'' @ b))"

fun replace_first :: "string \<Rightarrow> string \<Rightarrow> string \<Rightarrow> string" where
  \<comment> \<open>\<^verbatim>\<open>s.replace(pattern, replacement)\<close> for a string pattern: the first occurrence only\<close>
  "replace_first pattern replacement [] = (if pattern = [] then replacement else [])"
| "replace_first pattern replacement (x # xs) =
     (if take (length pattern) (x # xs) = pattern
      then replacement @ drop (length pattern) (x # xs)
      else x # replace_first pattern replacement xs)"

definition uploadsDir :: "environment \<Rightarrow> string" where
  \<comment> \<open>line 38: \<^verbatim>\<open>path.join(__dirname, 'uploads')\<close>, where the transport layer stages files\<close>
  "uploadsDir e = path_join (env_dirname e) ''uploads''"

definition local_file_of :: "environment \<Rightarrow> string \<Rightarrow> string" where
  \<comment> \<open>line 383: \<^verbatim>\<open>path.join(__dirname, row.url.replace('/uploads/', 'uploads/'))\<close>\<close>
  "local_file_of e url =
     path_join (env_dirname e) (replace_first ''/uploads/'' ''uploads/'' url)"

text \<open>
  A plain name is one segment that normalising keeps as it is, and \<open>absolute_path\<close> spells
  the absolute path made of the given segments. \<^verbatim>\<open>__dirname\<close> is always such a path of plain
  segments.
\<close>

definition plain_name :: "string \<Rightarrow> bool" where
  "plain_name s = (s \<noteq> [] \<and> CHR ''/'' \<notin> set s \<and> s \<noteq> ''.'' \<and> s \<noteq> ''..'')"

definition absolute_path :: "string list \<Rightarrow> string" where
  "absolute_path segs = concat (map (\<lambda>s. CHR ''/'' # s) segs)"

definition delete_track ::
  "environment \<Rightarrow> delete_surroundings \<Rightarrow> json option \<Rightarrow> string option \<Rightarrow> string \<Rightarrow> world
   \<Rightarrow> response \<times> world" where
  \<comment> \<open>lines 367-392, behind \<^verbatim>\<open>requireOwner\<close>; \<open>id_param\<close> is \<^verbatim>\<open>req.params.id\<close>\<close>
  "delete_track e sur body_token header_token id_param w =
     (if \<not> requireOwner e body_token header_token then
        (Response 403 (ErrorBody NoRights), w)
      else
        (case parseInt10 id_param of
           None \<Rightarrow> (Response 400 (ErrorBody IdRequired), w)
         | Some trackId \<Rightarrow>
             if trackId = 0 then (Response 400 (ErrorBody IdRequired), w)
             else
               (case del_select_fault sur of
                  Some m \<Rightarrow> (Response 500 (ErrorBody (DbDeleteError m)), w)
                | None \<Rightarrow>
                    (case find (\<lambda>t. track_id t = trackId) (tracks w) of
                       None \<Rightarrow> (Response 404 (ErrorBody TrackNotFound), w)
                     | Some row \<Rightarrow>
                         let now_rows = del_meanwhile sur (tracks w) in
                         (case del_delete_fault sur of
                            Some m \<Rightarrow>
                              (Response 500 (ErrorBody (DbDeleteError m)),
                               w\<lparr>tracks := now_rows\<rparr>)
                          | None \<Rightarrow>
                              let kept = filter (\<lambda>t. track_id t \<noteq> trackId) now_rows;
                                  w1 = w\<lparr>tracks := kept\<rparr>
                              in
                              if length now_rows - length kept = 0 then
                                (Response 404 (ErrorBody TrackNotFound), w1)
                              else if track_url row \<noteq> [] \<and>
                                      starts_with ''/uploads/'' (track_url row) then
                                (Response 200 SuccessBody,
                                 fs_unlink (del_unlink_refused sur)
                                   (local_file_of e (track_url row)) w1)
                              else (Response 200 SuccessBody, w1))))))"

section \<open>Replacing likes and playlists: \<^verbatim>\<open>PUT /api/user/:id/likes\<close>, \<^verbatim>\<open>.../playlists\<close>\<close>

definition put_likes :: "string option \<Rightarrow> string \<Rightarrow> json option \<Rightarrow> world \<Rightarrow> response \<times> world" where
  \<comment> \<open>lines 189-205; the first argument is the error of the UPDATE statement, if any\<close>
  "put_likes fault id_param likes w =
     (case parseInt10 id_param of
        None \<Rightarrow> (Response 400 (ErrorBody IdRequired), w)
      | Some userId \<Rightarrow>
          if userId = 0 then (Response 400 (ErrorBody IdRequired), w)
          else
            (case likes of
               Some (JArr xs) \<Rightarrow>
                 (case fault of
                    Some m \<Rightarrow> (Response 500 (ErrorBody (DbError m)), w)
                  | None \<Rightarrow>
                      (Response 200 (SuccessLikes (JArr xs)),
                       w\<lparr>users := map (\<lambda>u. if user_id u = userId
                                             then u\<lparr>user_likes := Some (JArr xs)\<rparr> else u)
                                      (users w)\<rparr>))
             | _ \<Rightarrow> (Response 400 (ErrorBody LikesMustBeArray), w)))"

definition put_playlists :: "string option \<Rightarrow> string \<Rightarrow> json option \<Rightarrow> world \<Rightarrow> response \<times> world" where
  \<comment> \<open>lines 208-224\<close>
  "put_playlists fault id_param playlists w =
     (case parseInt10 id_param of
        None \<Rightarrow> (Response 400 (ErrorBody IdRequired), w)
      | Some userId \<Rightarrow>
          if userId = 0 then (Response 400 (ErrorBody IdRequired), w)
          else
            (case playlists of
               Some (JArr xs) \<Rightarrow>
                 (case fault of
                    Some m \<Rightarrow> (Response 500 (ErrorBody (DbError m)), w)
                  | None \<Rightarrow>
                      (Response 200 (SuccessPlaylists (JArr xs)),
                       w\<lparr>users := map (\<lambda>u. if user_id u = userId
                                             then u\<lparr>user_playlists := Some (JArr xs)\<rparr> else u)
                                      (users w)\<rparr>))
             | _ \<Rightarrow> (Response 400 (ErrorBody PlaylistsMustBeArray), w)))"

section \<open>Logging in: \<^verbatim>\<open>POST /api/login\<close>\<close>

definition to_lower_char :: "char \<Rightarrow> char" where
  "to_lower_char c =
     (if (65::nat) \<le> of_char c \<and> of_char c \<le> (90::nat)
      then ''abcdefghijklmnopqrstuvwxyz'' ! (of_char c - 65)
      else c)"

definition toLowerCase :: "string \<Rightarrow> string" where
  "toLowerCase s = map to_lower_char s"

definition or_empty_array :: "json option \<Rightarrow> json" where
  \<comment> \<open>\<^verbatim>\<open>x || []\<close>\<close>
  "or_empty_array x = (case x of None \<Rightarrow> JArr [] | Some v \<Rightarrow> if truthy (Some v) then v else JArr [])"

text \<open>
  \<^verbatim>\<open>bcrypt.compare(data, hash)\<close> of the bcrypt package checks its arguments before it
  compares: the promise is rejected when the password is missing or null, and when it is
  not a string. For a string it answers whether the password matches the hash; that
  answer is left open as the function \<open>matches\<close>.
\<close>

definition bcrypt_compare ::
  "(string \<Rightarrow> string \<Rightarrow> bool) \<Rightarrow> json option \<Rightarrow> string \<Rightarrow> string + bool" where
  "bcrypt_compare matches data hash =
     (case data of
        None \<Rightarrow> Inl ''data and hash arguments required''
      | Some JNull \<Rightarrow> Inl ''data and hash arguments required''
      | Some (JStr s) \<Rightarrow> Inr (matches s hash)
      | Some _ \<Rightarrow> Inl ''data must be a string or Buffer and hash must be a string'')"

definition login ::
  "(json option \<Rightarrow> string \<Rightarrow> string + bool) \<Rightarrow> string option \<Rightarrow> json option \<Rightarrow> json option
   \<Rightarrow> user_row list \<Rightarrow> response" where
  \<comment> \<open>lines 130-160. The first argument is \<^verbatim>\<open>bcrypt.compare\<close> (\<open>Inl\<close>: it rejects with that
      message), the second the error of the SELECT, if any; then the \<^verbatim>\<open>email\<close> and
      \<^verbatim>\<open>password\<close> fields of the body and the rows of \<^verbatim>\<open>users\<close>\<close>
  "login compare fault email password rows =
     (case email of
        Some (JStr addr) \<Rightarrow>
          (let lowered = toLowerCase addr in
           case fault of
             Some m \<Rightarrow> Response 500 (ErrorBody (DbError m))
           | None \<Rightarrow>
               (case find (\<lambda>u. user_email u = lowered) rows of
                  None \<Rightarrow> Response 401 (ErrorBody InvalidEmailOrPassword)
                | Some user \<Rightarrow>
                    (case compare password (user_password user) of
                       Inl m \<Rightarrow> Response 500 (ErrorBody (DbError m))
                     | Inr passwordMatch \<Rightarrow>
                         if \<not> passwordMatch then
                           Response 401 (ErrorBody InvalidEmailOrPassword)
                         else
                           Response 200
                             (UserBody (user_id user) (user_email user)
                                (or_empty_array (user_likes user))
                                (or_empty_array (user_playlists user))))))
      | _ \<Rightarrow> Response 500 (ErrorBody (DbError ''TypeError'')))"

section \<open>Process start: \<^verbatim>\<open>initDb\<close> and \<^verbatim>\<open>app.listen\<close>\<close>

text \<open>
  \<^verbatim>\<open>initDb\<close> awaits four statements in turn; the first one that fails rejects the promise
  and the later ones do not run. The module then attaches a handler that writes the error
  to the error console, and calls \<^verbatim>\<open>app.listen\<close> whatever \<^verbatim>\<open>initDb\<close> does.
\<close>

datatype ddl = CreateUsers | CreateTracks | AddLikesColumn | AddPlaylistsColumn

record ddl_faults =
  fault_create_users :: "string option"
  fault_create_tracks :: "string option"
  fault_add_likes :: "string option"
  fault_add_playlists :: "string option"

definition initDb :: "ddl_faults \<Rightarrow> ddl list \<times> string option" where
  \<comment> \<open>lines 60-83: the statements that ran, and the error of the rejected promise\<close>
  "initDb fl =
     (case fault_create_users fl of
        Some m \<Rightarrow> ([], Some m)
      | None \<Rightarrow>
          (case fault_create_tracks fl of
             Some m \<Rightarrow> ([CreateUsers], Some m)
           | None \<Rightarrow>
               (case fault_add_likes fl of
                  Some m \<Rightarrow> ([CreateUsers, CreateTracks], Some m)
                | None \<Rightarrow>
                    (case fault_add_playlists fl of
                       Some m \<Rightarrow> ([CreateUsers, CreateTracks, AddLikesColumn], Some m)
                     | None \<Rightarrow>
                         ([CreateUsers, CreateTracks, AddLikesColumn, AddPlaylistsColumn],
                          None)))))"

datatype log_line = DbInitError string | ServerRunning

record process =
  applied :: "ddl list"
  console_error :: "log_line list"
  console_log :: "log_line list"
  listening :: bool

definition startup :: "ddl_faults \<Rightarrow> process" where
  \<comment> \<open>lines 85-87 and 399-401\<close>
  "startup fl =
     \<lparr>applied = fst (initDb fl),
      console_error = (case snd (initDb fl) of None \<Rightarrow> [] | Some m \<Rightarrow> [DbInitError m]),
      console_log = [ServerRunning],
      listening = True\<rparr>"

section \<open>Sample inputs\<close>

text \<open>
  One deployment that serves uploads from the local disk and one that offloads them to
  object storage, a file that the transport layer has staged, and the disk that holds it.
\<close>

abbreviation sample_env_local :: environment where
  "sample_env_local \<equiv>
     \<lparr>env_ADMIN_PASSWORD = Some ''s3cret'', env_SUPABASE_URL = None,
      env_SUPABASE_SERVICE_KEY = None, env_SUPABASE_BUCKET = None, env_dirname = ''/app''\<rparr>"

abbreviation sample_env_remote :: environment where
  "sample_env_remote \<equiv>
     \<lparr>env_ADMIN_PASSWORD = Some ''s3cret'', env_SUPABASE_URL = Some ''https://p.supabase.co/'',
      env_SUPABASE_SERVICE_KEY = Some ''sb_secret_k'', env_SUPABASE_BUCKET = None,
      env_dirname = ''/app''\<rparr>"

abbreviation sample_file :: staged_file where
  "sample_file \<equiv>
     \<lparr>file_path = ''/app/uploads/17_a.mp3'', file_filename = ''17_a.mp3'',
      file_mimetype = Some ''audio/mpeg''\<rparr>"

abbreviation sample_disk :: world where
  "sample_disk \<equiv>
     \<lparr>users = [], tracks = [], next_track_id = 1, files = {''/app/uploads/17_a.mp3''},
      unlink_calls = []\<rparr>"

abbreviation sample_request :: "string option \<Rightarrow> string option \<Rightarrow> string \<Rightarrow> upload_request" where
  "sample_request body_token header_token title \<equiv>
     \<lparr>up_adminPassword = body_token, up_title = Some title, up_artist = None,
      up_header_admin = header_token, up_file = Some sample_file\<rparr>"

abbreviation sample_surroundings :: "fetch_outcome \<Rightarrow> surroundings" where
  "sample_surroundings outcome \<equiv>
     \<lparr>unlink_refused = False, fetch_result = outcome, db_fault = None\<rparr>"

abbreviation sample_catalog :: world where
  "sample_catalog \<equiv>
     \<lparr>users = [],
      tracks = [\<lparr>track_id = 1, track_title = ''Song'', track_artist = None,
                 track_url = ''/uploads/17_a.mp3''\<rparr>,
                \<lparr>track_id = 2, track_title = ''Lofi Morning'', track_artist = Some ''Beat Studio'',
                 track_url = ''https://example/x.mp3''\<rparr>],
      next_track_id = 3, files = {''/app/uploads/17_a.mp3''}, unlink_calls = []\<rparr>"

abbreviation sample_quiet :: "bool \<Rightarrow> delete_surroundings" where
  "sample_quiet refused \<equiv>
     \<lparr>del_select_fault = None, del_meanwhile = (\<lambda>rows. rows), del_delete_fault = None,
      del_unlink_refused = refused\<rparr>"

abbreviation sample_racing :: delete_surroundings where
  "sample_racing \<equiv>
     \<lparr>del_select_fault = None, del_meanwhile = filter (\<lambda>t. track_id t \<noteq> 1),
      del_delete_fault = None, del_unlink_refused = False\<rparr>"

abbreviation sample_user :: user_row where
  "sample_user \<equiv>
     \<lparr>user_id = 1, user_email = ''alice@example.com'', user_password = ''$2b$10$hash'',
      user_likes = Some (JArr [JNum 2]), user_playlists = None\<rparr>"

abbreviation sample_matches :: "string \<Rightarrow> string \<Rightarrow> bool" where
  "sample_matches \<equiv> (\<lambda>password hash. password = ''right'' \<and> hash = ''$2b$10$hash'')"

abbreviation sample_accounts :: world where
  "sample_accounts \<equiv>
     \<lparr>users = [sample_user], tracks = [], next_track_id = 1, files = {}, unlink_calls = []\<rparr>"

abbreviation sample_faults ::
  "string option \<Rightarrow> string option \<Rightarrow> string option \<Rightarrow> string option \<Rightarrow> ddl_faults" where
  "sample_faults a b c d \<equiv>
     \<lparr>fault_create_users = a, fault_create_tracks = b, fault_add_likes = c,
      fault_add_playlists = d\<rparr>"

abbreviation sample_db_down :: surroundings where
  "sample_db_down \<equiv>
     \<lparr>unlink_refused = False, fetch_result = FetchThrows [], db_fault = Some ''connection lost''\<rparr>"

section \<open>Basic facts\<close>

lemma ADMIN_PASSWORD_nonempty: "ADMIN_PASSWORD e \<noteq> []"
  by (simp add: ADMIN_PASSWORD_def env_or_def split: option.splits)

lemma secret_not_falsy: "\<not> falsy_string (Some (ADMIN_PASSWORD e))"
  using ADMIN_PASSWORD_nonempty [of e] by (simp add: falsy_string_def)

lemma upload_denied_iff:
  "falsy_string token \<or> token \<noteq> Some (ADMIN_PASSWORD e) \<longleftrightarrow> token \<noteq> Some (ADMIN_PASSWORD e)"
  using ADMIN_PASSWORD_nonempty [of e] by (auto simp: falsy_string_def)

lemma upload_authorized:
  assumes "up_adminPassword req = Some (ADMIN_PASSWORD e)"
  shows "upload e sur req w =
     (if trim (or_empty (up_title req)) = [] then (Response 400 (ErrorBody TitleRequired), w)
      else
        (case up_file req of
           None \<Rightarrow> (Response 400 (ErrorBody FileRequired), w)
         | Some f \<Rightarrow>
             if SUPABASE_URL e \<noteq> [] \<and> SUPABASE_SERVICE_KEY e \<noteq> [] then
               (case offload e sur f w of
                  Inl failure \<Rightarrow> (failure, fs_unlink (unlink_refused sur) (file_path f) w)
                | Inr finalUrl \<Rightarrow>
                    insert_track sur (trim (or_empty (up_title req)))
                      (trim (or_empty (up_artist req))) finalUrl
                      (fs_unlink (unlink_refused sur) (file_path f) w))
             else
               insert_track sur (trim (or_empty (up_title req)))
                 (trim (or_empty (up_artist req))) (''/uploads/'' @ file_filename f) w))"
  using assms by (simp add: upload_def Let_def secret_not_falsy)

lemma fs_unlink_tracks: "tracks (fs_unlink r p w) = tracks w"
  and fs_unlink_next: "next_track_id (fs_unlink r p w) = next_track_id w"
  and fs_unlink_users: "users (fs_unlink r p w) = users w"
  and fs_unlink_calls: "unlink_calls (fs_unlink r p w) = unlink_calls w @ [p]"
  and fs_unlink_files: "files (fs_unlink r p w) = (if r then files w else files w - {p})"
  by (simp_all add: fs_unlink_def)

lemmas fs_unlink_simps =
  fs_unlink_tracks fs_unlink_next fs_unlink_users fs_unlink_calls fs_unlink_files

lemma sample_secrets:
  "ADMIN_PASSWORD sample_env_local = ''s3cret''"
  "ADMIN_PASSWORD sample_env_remote = ''s3cret''"
  "SUPABASE_URL sample_env_local = []"
  "SUPABASE_URL sample_env_remote = ''https://p.supabase.co/''"
  "SUPABASE_SERVICE_KEY sample_env_remote = ''sb_secret_k''"
  by (simp_all add: ADMIN_PASSWORD_def SUPABASE_URL_def SUPABASE_SERVICE_KEY_def env_or_def)

lemma insert_track_files:
  "files (snd (insert_track sur t a u w)) = files w"
  "unlink_calls (snd (insert_track sur t a u w)) = unlink_calls w"
  by (simp_all add: insert_track_def split: option.splits)

lemma offload_failure_cases:
  assumes "fetch_result sur = FetchThrows m \<or> fetch_result sur = FetchResponse False st reply
           \<or> file_path f \<notin> files w"
  shows "\<exists>msg. offload e sur f w = Inl (Response 500 (ErrorBody msg))"
  using assms by (auto simp: offload_def Let_def split: fetch_outcome.splits)

section \<open>The upload pipeline: rejection paths\<close>

text \<open>
  C1. An upload whose admin token (the \<^verbatim>\<open>adminPassword\<close> field of the form) is missing or
  differs from the configured secret is answered 403 with the no-rights message; the
  \<^verbatim>\<open>tracks\<close> table and its sequence are left as they were; and when the transport layer
  has staged a file, that file's path is handed to \<^verbatim>\<open>unlinkSync\<close> and is gone from the
  disk afterwards, unless the file system refuses the unlink.
\<close>

theorem upload_forbidden:
  assumes "up_adminPassword req \<noteq> Some (ADMIN_PASSWORD e)"
  shows "fst (upload e sur req w) = Response 403 (ErrorBody NoRights)
       \<and> tracks (snd (upload e sur req w)) = tracks w
       \<and> next_track_id (snd (upload e sur req w)) = next_track_id w
       \<and> (\<forall>f. up_file req = Some f \<longrightarrow>
              unlink_calls (snd (upload e sur req w)) = unlink_calls w @ [file_path f]
            \<and> (\<not> unlink_refused sur \<longrightarrow> file_path f \<notin> files (snd (upload e sur req w))))"
proof (cases "up_file req")
  case None
  with assms show ?thesis
    by (simp add: upload_def upload_denied_iff)
next
  case (Some f)
  with assms show ?thesis
    by (simp add: upload_def upload_denied_iff fs_unlink_simps)
qed

theorem upload_forbidden_witness:
  "up_adminPassword (sample_request (Some ''guess'') None ''Song'')
     \<noteq> Some (ADMIN_PASSWORD sample_env_local)
   \<and> up_file (sample_request (Some ''guess'') None ''Song'') = Some sample_file
   \<and> \<not> unlink_refused (sample_surroundings (FetchThrows []))
   \<and> fst (upload sample_env_local (sample_surroundings (FetchThrows []))
             (sample_request (Some ''guess'') None ''Song'') sample_disk)
       = Response 403 (ErrorBody NoRights)
   \<and> tracks (snd (upload sample_env_local (sample_surroundings (FetchThrows []))
             (sample_request (Some ''guess'') None ''Song'') sample_disk)) = []
   \<and> ''/app/uploads/17_a.mp3'' \<notin>
       files (snd (upload sample_env_local (sample_surroundings (FetchThrows []))
             (sample_request (Some ''guess'') None ''Song'') sample_disk))"
  using upload_forbidden [where req = "sample_request (Some ''guess'') None ''Song''"
      and e = sample_env_local and sur = "sample_surroundings (FetchThrows [])"
      and w = sample_disk]
  by (simp add: sample_secrets)

text \<open>
  C2. An authorized upload with a title and a staged file, on a deployment with object
  storage configured, whose offload fails (the store answers with a response that is not
  ok, \<^verbatim>\<open>fetch\<close> throws, or the staged file cannot be read) is answered 500 with an error
  body, and neither a row nor a sequence value of \<^verbatim>\<open>tracks\<close> is consumed.
\<close>

theorem upload_offload_failure_rejected:
  assumes "up_adminPassword req = Some (ADMIN_PASSWORD e)"
      and "trim (or_empty (up_title req)) \<noteq> []"
      and "up_file req = Some f"
      and "SUPABASE_URL e \<noteq> [] \<and> SUPABASE_SERVICE_KEY e \<noteq> []"
      and "fetch_result sur = FetchThrows m \<or> fetch_result sur = FetchResponse False st reply
           \<or> file_path f \<notin> files w"
  shows "status (fst (upload e sur req w)) = 500
       \<and> (\<exists>msg. body (fst (upload e sur req w)) = ErrorBody msg)
       \<and> tracks (snd (upload e sur req w)) = tracks w
       \<and> next_track_id (snd (upload e sur req w)) = next_track_id w"
proof -
  note run = upload_authorized [OF assms(1), of sur w]
  from offload_failure_cases [OF assms(5)]
  obtain msg where off: "offload e sur f w = Inl (Response 500 (ErrorBody msg))"
    by blast
  from assms(2,3,4) off
  have "upload e sur req w =
          (Response 500 (ErrorBody msg), fs_unlink (unlink_refused sur) (file_path f) w)"
    by (simp add: run)
  then show ?thesis
    by (simp add: fs_unlink_simps)
qed

theorem upload_offload_failure_rejected_witness:
  "up_adminPassword (sample_request (Some ''s3cret'') None ''Song'')
     = Some (ADMIN_PASSWORD sample_env_remote)
   \<and> trim (or_empty (up_title (sample_request (Some ''s3cret'') None ''Song''))) \<noteq> []
   \<and> up_file (sample_request (Some ''s3cret'') None ''Song'') = Some sample_file
   \<and> SUPABASE_URL sample_env_remote \<noteq> [] \<and> SUPABASE_SERVICE_KEY sample_env_remote \<noteq> []
   \<and> fetch_result (sample_surroundings (FetchResponse False 403 ''denied''))
       = FetchResponse False 403 ''denied''
   \<and> status (fst (upload sample_env_remote (sample_surroundings (FetchResponse False 403 ''denied''))
             (sample_request (Some ''s3cret'') None ''Song'') sample_disk)) = 500
   \<and> tracks (snd (upload sample_env_remote (sample_surroundings (FetchResponse False 403 ''denied''))
             (sample_request (Some ''s3cret'') None ''Song'') sample_disk)) = []"
  using upload_offload_failure_rejected [where req = "sample_request (Some ''s3cret'') None ''Song''"
      and e = sample_env_remote and f = sample_file
      and sur = "sample_surroundings (FetchResponse False 403 ''denied'')"
      and m = "[]" and st = "403" and reply = "''denied''" and w = sample_disk]
  by (simp add: sample_secrets trim_def or_empty_def is_space_def)

text \<open>
  A validation failure (blank title, or no file) is answered 400 and changes nothing at
  all: no row, no sequence value, and no file-system call.
\<close>

lemma upload_validation_error_keeps_world:
  assumes "up_adminPassword req = Some (ADMIN_PASSWORD e)"
      and "trim (or_empty (up_title req)) = [] \<or> up_file req = None"
  shows "status (fst (upload e sur req w)) = 400 \<and> snd (upload e sur req w) = w"
  using assms(2) by (auto simp: upload_authorized [OF assms(1)])

text \<open>
  C3. An authorized upload whose title is blank is answered with the validation error
  400 and inserts no row, but the file that the transport layer has staged for it is
  not removed: with the title \<^verbatim>\<open>'  '\<close> and the staged file \<^verbatim>\<open>/app/uploads/17_a.mp3\<close> the
  handler returns the disk as it found it, the file still on it, and makes no unlink call.
\<close>

theorem upload_blank_title_keeps_staged_file:
  "upload sample_env_local (sample_surroundings (FetchThrows []))
     (sample_request (Some ''s3cret'') None ''  '') sample_disk
     = (Response 400 (ErrorBody TitleRequired), sample_disk)
   \<and> ''/app/uploads/17_a.mp3'' \<in>
        files (snd (upload sample_env_local (sample_surroundings (FetchThrows []))
                     (sample_request (Some ''s3cret'') None ''  '') sample_disk))
   \<and> unlink_calls (snd (upload sample_env_local (sample_surroundings (FetchThrows []))
                     (sample_request (Some ''s3cret'') None ''  '') sample_disk)) = []"
  by (simp add: upload_def falsy_string_def sample_secrets trim_def or_empty_def is_space_def
      Let_def)

section \<open>The upload pipeline: the staged file after an accepted request\<close>

text \<open>
  Against C4 as it is stated (the temporary file is removed in every outcome, also when no
  object storage is configured): on a deployment without object storage the staged file
  is the file that the new row's url \<^verbatim>\<open>/uploads/<filename>\<close> points to, and the handler
  keeps it. The upload below is answered 200 and the file is still on the disk, with no
  unlink call made.
\<close>

theorem upload_local_keeps_file_counterexample:
  "fst (upload sample_env_local (sample_surroundings (FetchThrows []))
          (sample_request (Some ''s3cret'') None ''Song'') sample_disk)
     = Response 200 (TrackBody 1 ''Song'' [] ''/uploads/17_a.mp3'')
   \<and> ''/app/uploads/17_a.mp3'' \<in>
        files (snd (upload sample_env_local (sample_surroundings (FetchThrows []))
                     (sample_request (Some ''s3cret'') None ''Song'') sample_disk))
   \<and> unlink_calls (snd (upload sample_env_local (sample_surroundings (FetchThrows []))
                     (sample_request (Some ''s3cret'') None ''Song'') sample_disk)) = []"
  by (simp add: upload_def falsy_string_def sample_secrets trim_def or_empty_def is_space_def
      insert_track_def Let_def)

lemma insert_track_ok:
  "db_fault sur = None \<Longrightarrow>
   insert_track sur title artist url w =
     (Response 200 (TrackBody (next_track_id w) title artist url),
      w\<lparr>tracks := tracks w @
             [\<lparr>track_id = next_track_id w, track_title = title,
               track_artist = (if artist = [] then None else Some artist), track_url = url\<rparr>],
        next_track_id := next_track_id w + 1\<rparr>)"
  by (simp add: insert_track_def)

lemma insert_track_fault:
  "db_fault sur = Some m \<Longrightarrow>
   insert_track sur title artist url w = (Response 500 (ErrorBody (DbError m)), w)"
  by (simp add: insert_track_def)

text \<open>
  C4, as the code has it. For an authorized upload with a title and a staged file: when
  object storage is configured, the staged file's path is handed to \<^verbatim>\<open>fs.unlink\<close>
  whether the offload succeeded or failed, and the file is gone afterwards unless the file
  system refuses. When object storage is not configured, the handler makes no unlink call
  and the disk keeps every file it had, the staged one included; if the INSERT succeeds,
  the reply and the one new row carry the url \<^verbatim>\<open>/uploads/\<close> followed by the staged file's
  name; if the INSERT fails, the reply is 500 and the file stays although no row was added.
\<close>

theorem upload_temp_file_cleanup:
  assumes "up_adminPassword req = Some (ADMIN_PASSWORD e)"
      and "trim (or_empty (up_title req)) \<noteq> []"
      and "up_file req = Some f"
  shows "(SUPABASE_URL e \<noteq> [] \<and> SUPABASE_SERVICE_KEY e \<noteq> [] \<longrightarrow>
            unlink_calls (snd (upload e sur req w)) = unlink_calls w @ [file_path f]
          \<and> (\<not> unlink_refused sur \<longrightarrow> file_path f \<notin> files (snd (upload e sur req w))))
       \<and> (\<not> (SUPABASE_URL e \<noteq> [] \<and> SUPABASE_SERVICE_KEY e \<noteq> []) \<longrightarrow>
            files (snd (upload e sur req w)) = files w
          \<and> unlink_calls (snd (upload e sur req w)) = unlink_calls w
          \<and> (db_fault sur = None \<longrightarrow>
                fst (upload e sur req w)
                  = Response 200
                      (TrackBody (next_track_id w) (trim (or_empty (up_title req)))
                         (trim (or_empty (up_artist req))) (''/uploads/'' @ file_filename f))
              \<and> tracks (snd (upload e sur req w))
                  = tracks w @
                      [\<lparr>track_id = next_track_id w,
                        track_title = trim (or_empty (up_title req)),
                        track_artist = (if trim (or_empty (up_artist req)) = [] then None
                                        else Some (trim (or_empty (up_artist req)))),
                        track_url = ''/uploads/'' @ file_filename f\<rparr>])
          \<and> (\<forall>m. db_fault sur = Some m \<longrightarrow>
                fst (upload e sur req w) = Response 500 (ErrorBody (DbError m))
              \<and> tracks (snd (upload e sur req w)) = tracks w))"
proof -
  note run = upload_authorized [OF assms(1), of sur w]
  show ?thesis
  proof (cases "SUPABASE_URL e \<noteq> [] \<and> SUPABASE_SERVICE_KEY e \<noteq> []")
    case True
    show ?thesis
    proof (cases "offload e sur f w")
      case (Inl failure)
      with assms(2,3) True
      have "snd (upload e sur req w) = fs_unlink (unlink_refused sur) (file_path f) w"
        by (simp add: run)
      with True show ?thesis by (simp add: fs_unlink_simps)
    next
      case (Inr finalUrl)
      with assms(2,3) True
      have "snd (upload e sur req w) =
              snd (insert_track sur (trim (or_empty (up_title req)))
                     (trim (or_empty (up_artist req))) finalUrl
                     (fs_unlink (unlink_refused sur) (file_path f) w))"
        by (simp add: run)
      with True show ?thesis by (simp add: insert_track_files fs_unlink_simps)
    qed
  next
    case False
    with assms(2,3)
    have local: "upload e sur req w =
            insert_track sur (trim (or_empty (up_title req)))
              (trim (or_empty (up_artist req))) (''/uploads/'' @ file_filename f) w"
      by (auto simp: run)
    show ?thesis
    proof (cases "db_fault sur")
      case None
      with False show ?thesis
        by (simp add: local insert_track_ok)
    next
      case (Some m)
      with False show ?thesis
        by (simp add: local insert_track_fault)
    qed
  qed
qed

theorem upload_temp_file_cleanup_witness:
  "up_adminPassword (sample_request (Some ''s3cret'') None ''Song'')
     = Some (ADMIN_PASSWORD sample_env_remote)
   \<and> up_adminPassword (sample_request (Some ''s3cret'') None ''Song'')
     = Some (ADMIN_PASSWORD sample_env_local)
   \<and> trim (or_empty (up_title (sample_request (Some ''s3cret'') None ''Song''))) \<noteq> []
   \<and> up_file (sample_request (Some ''s3cret'') None ''Song'') = Some sample_file
   \<and> (SUPABASE_URL sample_env_remote \<noteq> [] \<and> SUPABASE_SERVICE_KEY sample_env_remote \<noteq> [])
   \<and> \<not> (SUPABASE_URL sample_env_local \<noteq> [] \<and> SUPABASE_SERVICE_KEY sample_env_local \<noteq> [])
   \<and> \<not> unlink_refused (sample_surroundings (FetchResponse True 200 []))
   \<and> ''/app/uploads/17_a.mp3'' \<notin>
        files (snd (upload sample_env_remote (sample_surroundings (FetchResponse True 200 []))
                     (sample_request (Some ''s3cret'') None ''Song'') sample_disk))
   \<and> unlink_calls (snd (upload sample_env_remote (sample_surroundings (FetchResponse True 200 []))
                     (sample_request (Some ''s3cret'') None ''Song'') sample_disk))
        = [''/app/uploads/17_a.mp3'']
   \<and> db_fault (sample_surroundings (FetchResponse True 200 [])) = None
   \<and> files (snd (upload sample_env_local (sample_surroundings (FetchResponse True 200 []))
                     (sample_request (Some ''s3cret'') None ''Song'') sample_disk))
        = {''/app/uploads/17_a.mp3''}
   \<and> fst (upload sample_env_local (sample_surroundings (FetchResponse True 200 []))
            (sample_request (Some ''s3cret'') None ''Song'') sample_disk)
        = Response 200 (TrackBody 1 ''Song'' [] ''/uploads/17_a.mp3'')
   \<and> tracks (snd (upload sample_env_local (sample_surroundings (FetchResponse True 200 []))
                     (sample_request (Some ''s3cret'') None ''Song'') sample_disk))
        = [\<lparr>track_id = 1, track_title = ''Song'', track_artist = None,
            track_url = ''/uploads/17_a.mp3''\<rparr>]
   \<and> db_fault sample_db_down = Some ''connection lost''
   \<and> fst (upload sample_env_local sample_db_down
            (sample_request (Some ''s3cret'') None ''Song'') sample_disk)
        = Response 500 (ErrorBody (DbError ''connection lost''))
   \<and> tracks (snd (upload sample_env_local sample_db_down
                     (sample_request (Some ''s3cret'') None ''Song'') sample_disk)) = []
   \<and> files (snd (upload sample_env_local sample_db_down
                     (sample_request (Some ''s3cret'') None ''Song'') sample_disk))
        = {''/app/uploads/17_a.mp3''}"
  using upload_temp_file_cleanup [where req = "sample_request (Some ''s3cret'') None ''Song''"
      and e = sample_env_remote and f = sample_file
      and sur = "sample_surroundings (FetchResponse True 200 [])" and w = sample_disk]
    upload_temp_file_cleanup [where req = "sample_request (Some ''s3cret'') None ''Song''"
      and e = sample_env_local and f = sample_file
      and sur = "sample_surroundings (FetchResponse True 200 [])" and w = sample_disk]
    upload_temp_file_cleanup [where req = "sample_request (Some ''s3cret'') None ''Song''"
      and e = sample_env_local and f = sample_file
      and sur = sample_db_down and w = sample_disk]
  by (simp add: sample_secrets trim_def or_empty_def is_space_def)

section \<open>The access guard\<close>

text \<open>
  \<^verbatim>\<open>requireOwner\<close>, which guards the three other mutating track routes, takes the token
  from the body when that field is truthy and from the header otherwise, and lets the
  request through exactly when the token is the configured secret. The upload handler
  does not look at the header at all.
\<close>

lemma requireOwner_iff:
  "requireOwner e body_token header_token \<longleftrightarrow>
     (if truthy body_token then body_token = Some (JStr (ADMIN_PASSWORD e))
      else header_token = Some (ADMIN_PASSWORD e))"
  using ADMIN_PASSWORD_nonempty [of e]
  by (auto simp: requireOwner_def Let_def or_empty_def split: option.splits)

lemma upload_ignores_header:
  "upload e sur (req\<lparr>up_header_admin := h\<rparr>) w = upload e sur req w"
  by (simp add: upload_def falsy_string_def Let_def)

lemma requireOwner_accepts_secret_in_header:
  "requireOwner sample_env_local None (Some ''s3cret'')"
  by (simp add: requireOwner_iff sample_secrets)

text \<open>
  C9. The secret \<^verbatim>\<open>s3cret\<close> sent only in the \<^verbatim>\<open>x-admin-password\<close> header, which
  \<^verbatim>\<open>requireOwner\<close> lets through, does not authorize an upload: the upload handler answers
  the request 403. With the secret in the form field instead, the same upload is accepted.
\<close>

theorem upload_rejects_secret_in_header:
  "fst (upload sample_env_local (sample_surroundings (FetchThrows []))
          (sample_request None (Some ''s3cret'') ''Song'') sample_disk)
     = Response 403 (ErrorBody NoRights)
   \<and> fst (upload sample_env_local (sample_surroundings (FetchThrows []))
            (sample_request (Some ''s3cret'') None ''Song'') sample_disk)
       = Response 200 (TrackBody 1 ''Song'' [] ''/uploads/17_a.mp3'')"
  by (simp add: upload_def falsy_string_def sample_secrets trim_def
      or_empty_def is_space_def insert_track_def Let_def)

section \<open>Deleting a track\<close>

text \<open>
  Facts about \<^verbatim>\<open>path.join\<close>: a path made of plain segments is already normal, so joining
  the application directory with \<^verbatim>\<open>uploads/<name>\<close> appends to it; and a slash at the start
  of the second argument makes no difference. With them, the path that the delete route
  computes from a url \<^verbatim>\<open>/uploads/...\<close> is the url resolved against the application
  directory.
\<close>

lemma split_on_not_Nil: "split_on c s \<noteq> []"
  by (induction s) (auto split: list.splits)

lemma split_on_append: "split_on c (a @ c # b) = split_on c a @ split_on c b"
proof (induction a)
  case Nil
  show ?case by simp
next
  case (Cons x xs)
  show ?case
  proof (cases "split_on c xs")
    case Nil
    with split_on_not_Nil show ?thesis by blast
  next
    case (Cons s ss)
    with Cons.IH show ?thesis by simp
  qed
qed

lemma split_on_plain: "c \<notin> set s \<Longrightarrow> split_on c s = [s]"
  by (induction s) auto

lemma norm_step_empty: "norm_step aboveRoot kept [] = kept"
  by (simp add: norm_step_def)

lemma norm_step_plain: "plain_name seg \<Longrightarrow> norm_step aboveRoot kept seg = seg # kept"
  by (simp add: norm_step_def plain_name_def)

lemma foldl_norm_step_plain:
  "list_all plain_name segs \<Longrightarrow> foldl (norm_step aboveRoot) kept segs = rev segs @ kept"
  by (induction segs arbitrary: kept) (simp_all add: norm_step_plain)

lemma absolute_path_Cons: "absolute_path (s # ss) = CHR ''/'' # s @ absolute_path ss"
  by (simp add: absolute_path_def)

lemma absolute_path_append: "absolute_path (xs @ ys) = absolute_path xs @ absolute_path ys"
  by (simp add: absolute_path_def)

lemma join_segments_absolute:
  "segs \<noteq> [] \<Longrightarrow> CHR ''/'' # join_segments segs = absolute_path segs"
  by (induction segs rule: join_segments.induct) (simp_all add: absolute_path_Cons absolute_path_def)

lemma split_absolute_path:
  "CHR ''/'' \<notin> set s \<Longrightarrow> list_all plain_name ss \<Longrightarrow>
   split_on (CHR ''/'') (s @ absolute_path ss) = s # ss"
proof (induction ss arbitrary: s)
  case Nil
  then show ?case by (simp add: absolute_path_def split_on_plain)
next
  case (Cons t ts)
  from Cons.prems have t: "CHR ''/'' \<notin> set t"
    by (simp add: plain_name_def)
  from Cons.prems have ts: "list_all plain_name ts"
    by simp
  have "split_on (CHR ''/'') (s @ CHR ''/'' # (t @ absolute_path ts))
          = split_on (CHR ''/'') s @ split_on (CHR ''/'') (t @ absolute_path ts)"
    by (rule split_on_append)
  with Cons.IH [OF t ts] Cons.prems(1) show ?case
    by (simp add: absolute_path_Cons split_on_plain)
qed

lemma last_absolute_path:
  "segs \<noteq> [] \<Longrightarrow> list_all plain_name segs \<Longrightarrow> last (absolute_path segs) \<noteq> CHR ''/''"
proof (induction segs)
  case Nil
  then show ?case by simp
next
  case (Cons s ss)
  show ?case
  proof (cases ss)
    case Nil
    from Cons.prems have "s \<noteq> []" and "CHR ''/'' \<notin> set s"
      by (simp_all add: plain_name_def)
    then have "last s \<noteq> CHR ''/''"
      using last_in_set [of s] by metis
    with Nil \<open>s \<noteq> []\<close> show ?thesis
      by (simp add: absolute_path_def)
  next
    case (Cons t ts)
    with Cons.IH Cons.prems have "last (absolute_path ss) \<noteq> CHR ''/''" by simp
    moreover from Cons have "absolute_path ss \<noteq> []" by (simp add: absolute_path_def)
    ultimately show ?thesis by (simp add: absolute_path_Cons)
  qed
qed

lemma path_normalize_absolute_path:
  assumes "segs \<noteq> []" and "list_all plain_name segs"
  shows "path_normalize (absolute_path segs) = absolute_path segs"
proof -
  from assms(1) obtain s ss where segs: "segs = s # ss" by (cases segs) auto
  have shape: "absolute_path segs = CHR ''/'' # (s @ absolute_path ss)"
    by (simp add: segs absolute_path_Cons)
  from assms(2) segs have s: "CHR ''/'' \<notin> set s" and ss: "list_all plain_name ss" and "s \<noteq> []"
    by (simp_all add: plain_name_def)
  have split: "split_on (CHR ''/'') (CHR ''/'' # (s @ absolute_path ss)) = [] # segs"
    using split_absolute_path [OF s ss] by (simp add: segs)
  have walk: "foldl (norm_step False) [] ([] # segs) = rev segs"
    using foldl_norm_step_plain [OF assms(2), of False "[]"] by (simp add: norm_step_empty)
  have joined: "CHR ''/'' # join_segments segs = absolute_path segs"
    by (rule join_segments_absolute [OF assms(1)])
  have nonempty: "join_segments segs \<noteq> []"
    using joined shape \<open>s \<noteq> []\<close> by auto
  have no_trailing: "last (CHR ''/'' # (s @ absolute_path ss)) \<noteq> CHR ''/''"
    using last_absolute_path [OF assms] shape by simp
  show ?thesis
    unfolding shape path_normalize_def
    using split walk nonempty no_trailing joined shape
    by (simp add: Let_def)
qed

lemma path_join_plain:
  assumes "dirs \<noteq> []" and "list_all plain_name dirs" and "plain_name name"
  shows "path_join (absolute_path dirs) (''uploads/'' @ name)
           = absolute_path dirs @ ''/uploads/'' @ name"
proof -
  have whole: "absolute_path dirs @ ''/'' @ ''uploads/'' @ name
                 = absolute_path (dirs @ [''uploads'', name])"
    by (simp add: absolute_path_def)
  have "plain_name ''uploads''" by (simp add: plain_name_def)
  with assms(2,3) have all: "list_all plain_name (dirs @ [''uploads'', name])" by simp
  have "dirs @ [''uploads'', name] \<noteq> []" by simp
  from path_normalize_absolute_path [OF this all]
  have "path_normalize (absolute_path dirs @ ''/'' @ ''uploads/'' @ name)
          = absolute_path dirs @ ''/'' @ ''uploads/'' @ name"
    by (simp only: whole)
  moreover from assms(1) have "absolute_path dirs \<noteq> []"
    by (cases dirs) (simp_all add: absolute_path_def)
  ultimately show ?thesis
    by (simp add: path_join_def)
qed

lemma path_normalize_double_slash:
  assumes "d \<noteq> []" and "b \<noteq> []"
  shows "path_normalize (d @ ''/'' @ CHR ''/'' # b) = path_normalize (d @ ''/'' @ b)"
proof -
  from assms(1) obtain c cs where d: "d = c # cs" by (cases d) auto
  have split2: "split_on (CHR ''/'') (d @ CHR ''/'' # CHR ''/'' # b)
                  = split_on (CHR ''/'') d @ [] # split_on (CHR ''/'') b"
    using split_on_append [of "CHR ''/''" d "CHR ''/'' # b"] by simp
  have split1: "split_on (CHR ''/'') (d @ CHR ''/'' # b)
                  = split_on (CHR ''/'') d @ split_on (CHR ''/'') b"
    by (rule split_on_append)
  have walk: "foldl (norm_step aboveRoot) [] (split_on (CHR ''/'') (d @ CHR ''/'' # CHR ''/'' # b))
                = foldl (norm_step aboveRoot) [] (split_on (CHR ''/'') (d @ CHR ''/'' # b))" for aboveRoot
    by (simp add: split1 split2 norm_step_empty)
  have lasts: "last (d @ CHR ''/'' # CHR ''/'' # b) = last (d @ CHR ''/'' # b)"
    using assms(2) by simp
  show ?thesis
    using walk lasts
    by (simp add: path_normalize_def d Let_def del: foldl_append)
qed

lemma path_join_leading_slash:
  assumes "d \<noteq> []" and "b \<noteq> []"
  shows "path_join d (CHR ''/'' # b) = path_join d b"
  using assms path_normalize_double_slash [OF assms]
  by (simp add: path_join_def)

lemma replace_first_prefix:
  "pattern \<noteq> [] \<Longrightarrow> replace_first pattern replacement (pattern @ rest) = replacement @ rest"
  by (cases pattern) simp_all

lemma starts_with_split: "starts_with p s \<Longrightarrow> \<exists>rest. s = p @ rest"
  by (metis append_take_drop_id starts_with_def)

lemma local_file_of_resolves_url:
  assumes "starts_with ''/uploads/'' url" and "env_dirname e \<noteq> []"
  shows "local_file_of e url = path_join (env_dirname e) url"
proof -
  from starts_with_split [OF assms(1)]
  obtain rest where url: "url = ''/uploads/'' @ rest" by blast
  have "local_file_of e url = path_join (env_dirname e) (''uploads/'' @ rest)"
    unfolding url local_file_of_def
    by (subst replace_first_prefix) simp_all
  also have "\<dots> = path_join (env_dirname e) (CHR ''/'' # (''uploads/'' @ rest))"
    using path_join_leading_slash [OF assms(2), of "''uploads/'' @ rest"] by simp
  also have "\<dots> = path_join (env_dirname e) url"
    by (simp add: url)
  finally show ?thesis .
qed

lemma local_file_of_plain:
  assumes "env_dirname e = absolute_path dirs" and "dirs \<noteq> []" and "list_all plain_name dirs"
      and "plain_name name"
  shows "local_file_of e (''/uploads/'' @ name) = env_dirname e @ ''/uploads/'' @ name"
proof -
  have "local_file_of e (''/uploads/'' @ name) = path_join (env_dirname e) (''uploads/'' @ name)"
    unfolding local_file_of_def
    by (subst replace_first_prefix) simp_all
  with path_join_plain [OF assms(2,3,4)] assms(1) show ?thesis by simp
qed

lemma uploadsDir_plain:
  assumes "env_dirname e = absolute_path dirs" and "dirs \<noteq> []" and "list_all plain_name dirs"
  shows "uploadsDir e = env_dirname e @ ''/uploads''"
proof -
  have whole: "absolute_path dirs @ ''/'' @ ''uploads'' = absolute_path (dirs @ [''uploads''])"
    by (simp add: absolute_path_def)
  have "plain_name ''uploads''" by (simp add: plain_name_def)
  with assms(3) have all: "list_all plain_name (dirs @ [''uploads''])" by simp
  have "dirs @ [''uploads''] \<noteq> []" by simp
  from path_normalize_absolute_path [OF this all]
  have "path_normalize (absolute_path dirs @ ''/'' @ ''uploads'')
          = absolute_path dirs @ ''/'' @ ''uploads''"
    by (simp only: whole)
  moreover from assms(2) have "absolute_path dirs \<noteq> []"
    by (cases dirs) (simp_all add: absolute_path_def)
  ultimately show ?thesis
    using assms(1) by (simp add: uploadsDir_def path_join_def)
qed

lemma no_row_deleted_iff:
  "length rows - length (filter (\<lambda>t. track_id t \<noteq> n) rows) = 0
     \<longleftrightarrow> (\<forall>t \<in> set rows. track_id t \<noteq> n)"
proof
  assume "length rows - length (filter (\<lambda>t. track_id t \<noteq> n) rows) = 0"
  then have "length (filter (\<lambda>t. track_id t \<noteq> n) rows) = length rows"
    using length_filter_le [of "\<lambda>t. track_id t \<noteq> n" rows] by simp
  then show "\<forall>t \<in> set rows. track_id t \<noteq> n"
    by (metis (mono_tags, lifting) length_filter_less less_irrefl)
next
  assume "\<forall>t \<in> set rows. track_id t \<noteq> n"
  then have "filter (\<lambda>t. track_id t \<noteq> n) rows = rows"
    by (simp add: filter_id_conv)
  then show "length rows - length (filter (\<lambda>t. track_id t \<noteq> n) rows) = 0"
    by simp
qed

lemma delete_track_not_found_at_lookup:
  assumes "requireOwner e body_token header_token"
      and "parseInt10 id_param = Some n" and "n \<noteq> 0"
      and "del_select_fault sur = None"
      and "find (\<lambda>t. track_id t = n) (tracks w) = None"
  shows "delete_track e sur body_token header_token id_param w
           = (Response 404 (ErrorBody TrackNotFound), w)"
  using assms by (simp add: delete_track_def)

lemma delete_track_vanished:
  assumes "requireOwner e body_token header_token"
      and "parseInt10 id_param = Some n" and "n \<noteq> 0"
      and "del_select_fault sur = None" and "del_delete_fault sur = None"
      and "find (\<lambda>t. track_id t = n) (tracks w) = Some row"
      and "\<forall>t \<in> set (del_meanwhile sur (tracks w)). track_id t \<noteq> n"
  shows "delete_track e sur body_token header_token id_param w
           = (Response 404 (ErrorBody TrackNotFound), w\<lparr>tracks := del_meanwhile sur (tracks w)\<rparr>)"
proof -
  from assms(7) have "filter (\<lambda>t. track_id t \<noteq> n) (del_meanwhile sur (tracks w))
                        = del_meanwhile sur (tracks w)"
    by (simp add: filter_id_conv)
  with assms(1-6) show ?thesis
    by (simp add: delete_track_def Let_def)
qed

lemma delete_track_done:
  assumes "requireOwner e body_token header_token"
      and "parseInt10 id_param = Some n" and "n \<noteq> 0"
      and "del_select_fault sur = None" and "del_delete_fault sur = None"
      and "find (\<lambda>t. track_id t = n) (tracks w) = Some row"
      and "\<exists>t \<in> set (del_meanwhile sur (tracks w)). track_id t = n"
  shows "delete_track e sur body_token header_token id_param w
           = (Response 200 SuccessBody,
              if starts_with ''/uploads/'' (track_url row)
              then fs_unlink (del_unlink_refused sur) (local_file_of e (track_url row))
                     (w\<lparr>tracks := filter (\<lambda>t. track_id t \<noteq> n) (del_meanwhile sur (tracks w))\<rparr>)
              else w\<lparr>tracks := filter (\<lambda>t. track_id t \<noteq> n) (del_meanwhile sur (tracks w))\<rparr>)"
proof -
  from assms(7)
  have gone: "length (del_meanwhile sur (tracks w))
              - length (filter (\<lambda>t. track_id t \<noteq> n) (del_meanwhile sur (tracks w))) \<noteq> 0"
    unfolding no_row_deleted_iff by blast
  have empty_url: "track_url row = [] \<Longrightarrow> \<not> starts_with ''/uploads/'' (track_url row)"
    by (simp add: starts_with_def)
  from assms(1-6) gone empty_url show ?thesis
    by (auto simp: delete_track_def Let_def)
qed

lemma sample_parse:
  "parseInt10 ''1'' = Some 1" "parseInt10 ''2'' = Some 2" "parseInt10 ''9'' = Some 9"
  by (simp_all add: parseInt10_def is_space_def is_digit_def digits_value_def)

lemma sample_local_file:
  "local_file_of sample_env_local ''/uploads/17_a.mp3'' = ''/app/uploads/17_a.mp3''"
  "local_file_of sample_env_local ''/uploads/../x.txt'' = ''/app/x.txt''"
  by (simp_all add: local_file_of_def path_join_def path_normalize_def norm_step_def Let_def)

text \<open>
  C5. For an authorized delete of a valid id whose two statements do not fail: when no row
  has the id at the lookup, or none has it any more when the DELETE runs, the answer is 404
  and no file is touched. Otherwise the answer is the success reply and the row is gone.
  If the url read at the lookup starts with \<^verbatim>\<open>/uploads/\<close>, exactly one path is handed to
  \<^verbatim>\<open>fs.unlink\<close>: the url resolved against the application directory, which for a url
  \<^verbatim>\<open>/uploads/<name>\<close> with a plain name is the file of that name in the uploads directory.
  That file, and no other, is gone from the disk unless the file system refuses, and the
  reply is the same whether it refuses or not. If the url does not start with that
  prefix, no unlink call is made and the disk is unchanged.
\<close>

theorem delete_track_outcomes:
  assumes "requireOwner e body_token header_token"
      and "parseInt10 id_param = Some n" and "n \<noteq> 0"
      and "del_select_fault sur = None" and "del_delete_fault sur = None"
  shows "(find (\<lambda>t. track_id t = n) (tracks w) = None
          \<or> (\<forall>t \<in> set (del_meanwhile sur (tracks w)). track_id t \<noteq> n)
         \<longrightarrow> fst (delete_track e sur body_token header_token id_param w)
               = Response 404 (ErrorBody TrackNotFound)
             \<and> files (snd (delete_track e sur body_token header_token id_param w)) = files w
             \<and> unlink_calls (snd (delete_track e sur body_token header_token id_param w))
                 = unlink_calls w)
       \<and> (\<forall>row. find (\<lambda>t. track_id t = n) (tracks w) = Some row
               \<and> (\<exists>t \<in> set (del_meanwhile sur (tracks w)). track_id t = n)
         \<longrightarrow> fst (delete_track e sur body_token header_token id_param w)
               = Response 200 SuccessBody
             \<and> tracks (snd (delete_track e sur body_token header_token id_param w))
                 = filter (\<lambda>t. track_id t \<noteq> n) (del_meanwhile sur (tracks w))
             \<and> (starts_with ''/uploads/'' (track_url row) \<longrightarrow>
                   unlink_calls (snd (delete_track e sur body_token header_token id_param w))
                     = unlink_calls w @ [local_file_of e (track_url row)]
                 \<and> files (snd (delete_track e sur body_token header_token id_param w))
                     = (if del_unlink_refused sur then files w
                        else files w - {local_file_of e (track_url row)})
                 \<and> (env_dirname e \<noteq> [] \<longrightarrow>
                       local_file_of e (track_url row) = path_join (env_dirname e) (track_url row))
                 \<and> (\<forall>dirs name.
                       env_dirname e = absolute_path dirs \<and> dirs \<noteq> []
                       \<and> list_all plain_name dirs
                       \<and> track_url row = ''/uploads/'' @ name \<and> plain_name name \<longrightarrow>
                       local_file_of e (track_url row) = env_dirname e @ ''/uploads/'' @ name))
             \<and> (\<not> starts_with ''/uploads/'' (track_url row) \<longrightarrow>
                   files (snd (delete_track e sur body_token header_token id_param w)) = files w
                 \<and> unlink_calls (snd (delete_track e sur body_token header_token id_param w))
                     = unlink_calls w))"
proof -
  have lost:
    "fst (delete_track e sur body_token header_token id_param w)
       = Response 404 (ErrorBody TrackNotFound)
     \<and> files (snd (delete_track e sur body_token header_token id_param w)) = files w
     \<and> unlink_calls (snd (delete_track e sur body_token header_token id_param w))
         = unlink_calls w"
    if missing: "find (\<lambda>t. track_id t = n) (tracks w) = None
          \<or> (\<forall>t \<in> set (del_meanwhile sur (tracks w)). track_id t \<noteq> n)"
  proof (cases "find (\<lambda>t. track_id t = n) (tracks w)")
    case None
    from delete_track_not_found_at_lookup [OF assms(1-4) None] show ?thesis by simp
  next
    case (Some row)
    with missing have "\<forall>t \<in> set (del_meanwhile sur (tracks w)). track_id t \<noteq> n" by simp
    from delete_track_vanished [OF assms Some this] show ?thesis by simp
  qed
  have resolved:
    "local_file_of e (track_url row) = path_join (env_dirname e) (track_url row)"
    if "starts_with ''/uploads/'' (track_url row)" and "env_dirname e \<noteq> []" for row
    using that by (rule local_file_of_resolves_url)
  have in_uploads:
    "local_file_of e (track_url row) = env_dirname e @ ''/uploads/'' @ name"
    if "env_dirname e = absolute_path dirs \<and> dirs \<noteq> [] \<and> list_all plain_name dirs
        \<and> track_url row = ''/uploads/'' @ name \<and> plain_name name" for row dirs name
    using that local_file_of_plain [of e dirs name] by simp
  have deleted:
    "fst (delete_track e sur body_token header_token id_param w) = Response 200 SuccessBody
     \<and> tracks (snd (delete_track e sur body_token header_token id_param w))
         = filter (\<lambda>t. track_id t \<noteq> n) (del_meanwhile sur (tracks w))
     \<and> (starts_with ''/uploads/'' (track_url row) \<longrightarrow>
           unlink_calls (snd (delete_track e sur body_token header_token id_param w))
             = unlink_calls w @ [local_file_of e (track_url row)]
         \<and> files (snd (delete_track e sur body_token header_token id_param w))
             = (if del_unlink_refused sur then files w
                else files w - {local_file_of e (track_url row)}))
     \<and> (\<not> starts_with ''/uploads/'' (track_url row) \<longrightarrow>
           files (snd (delete_track e sur body_token header_token id_param w)) = files w
         \<and> unlink_calls (snd (delete_track e sur body_token header_token id_param w))
             = unlink_calls w)"
    if found: "find (\<lambda>t. track_id t = n) (tracks w) = Some row
               \<and> (\<exists>t \<in> set (del_meanwhile sur (tracks w)). track_id t = n)" for row
    using delete_track_done [OF assms conjunct1 [OF found] conjunct2 [OF found]]
    by (simp add: fs_unlink_simps)
  from lost deleted resolved in_uploads show ?thesis by blast
qed

theorem delete_track_outcomes_witness:
  "requireOwner sample_env_local None (Some ''s3cret'')
   \<and> parseInt10 ''1'' = Some 1 \<and> parseInt10 ''2'' = Some 2 \<and> parseInt10 ''9'' = Some 9
   \<and> del_select_fault (sample_quiet False) = None \<and> del_delete_fault (sample_quiet False) = None
   \<and> find (\<lambda>t. track_id t = 9) (tracks sample_catalog) = None
   \<and> fst (delete_track sample_env_local (sample_quiet False) None (Some ''s3cret'') ''9''
            sample_catalog) = Response 404 (ErrorBody TrackNotFound)
   \<and> filter (\<lambda>t. track_id t = 1) (del_meanwhile sample_racing (tracks sample_catalog)) = []
   \<and> fst (delete_track sample_env_local sample_racing None (Some ''s3cret'') ''1''
            sample_catalog) = Response 404 (ErrorBody TrackNotFound)
   \<and> starts_with ''/uploads/'' ''/uploads/17_a.mp3''
   \<and> env_dirname sample_env_local \<noteq> []
   \<and> env_dirname sample_env_local = absolute_path [''app'']
   \<and> list_all plain_name [''app''] \<and> plain_name ''17_a.mp3''
   \<and> fst (delete_track sample_env_local (sample_quiet False) None (Some ''s3cret'') ''1''
            sample_catalog) = Response 200 SuccessBody
   \<and> tracks (snd (delete_track sample_env_local (sample_quiet False) None (Some ''s3cret'') ''1''
                     sample_catalog))
        = [\<lparr>track_id = 2, track_title = ''Lofi Morning'', track_artist = Some ''Beat Studio'',
            track_url = ''https://example/x.mp3''\<rparr>]
   \<and> unlink_calls (snd (delete_track sample_env_local (sample_quiet False) None
                     (Some ''s3cret'') ''1'' sample_catalog)) = [''/app/uploads/17_a.mp3'']
   \<and> files (snd (delete_track sample_env_local (sample_quiet False) None (Some ''s3cret'') ''1''
                     sample_catalog)) = {}
   \<and> fst (delete_track sample_env_local (sample_quiet True) None (Some ''s3cret'') ''1''
            sample_catalog) = Response 200 SuccessBody
   \<and> files (snd (delete_track sample_env_local (sample_quiet True) None (Some ''s3cret'') ''1''
                     sample_catalog)) = {''/app/uploads/17_a.mp3''}
   \<and> \<not> starts_with ''/uploads/'' ''https://example/x.mp3''
   \<and> fst (delete_track sample_env_local (sample_quiet False) None (Some ''s3cret'') ''2''
            sample_catalog) = Response 200 SuccessBody
   \<and> unlink_calls (snd (delete_track sample_env_local (sample_quiet False) None (Some ''s3cret'')
                     ''2'' sample_catalog)) = []
   \<and> files (snd (delete_track sample_env_local (sample_quiet False) None (Some ''s3cret'')
                     ''2'' sample_catalog)) = {''/app/uploads/17_a.mp3''}"
proof -
  let ?row1 = "\<lparr>track_id = 1, track_title = ''Song'', track_artist = None,
                track_url = ''/uploads/17_a.mp3''\<rparr>"
  let ?row2 = "\<lparr>track_id = 2, track_title = ''Lofi Morning'', track_artist = Some ''Beat Studio'',
                track_url = ''https://example/x.mp3''\<rparr>"
  have auth: "requireOwner sample_env_local None (Some ''s3cret'')"
    by (simp add: requireOwner_iff sample_secrets)
  have quiet: "del_select_fault (sample_quiet refused) = None"
    "del_delete_fault (sample_quiet refused) = None" for refused
    by simp_all
  have racing: "del_select_fault sample_racing = None" "del_delete_fault sample_racing = None"
    by simp_all
  have local_url: "starts_with ''/uploads/'' (track_url ?row1)"
    by (simp add: starts_with_def)
  have remote_url: "\<not> starts_with ''/uploads/'' (track_url ?row2)"
    by (simp add: starts_with_def)
  have app: "env_dirname sample_env_local = absolute_path [''app'']"
    "list_all plain_name [''app'']" "plain_name ''17_a.mp3''"
    by (simp_all add: absolute_path_def plain_name_def)

  have unknown: "fst (delete_track sample_env_local (sample_quiet False) None (Some ''s3cret'')
                       ''9'' sample_catalog) = Response 404 (ErrorBody TrackNotFound)"
    using delete_track_outcomes [where e = sample_env_local and sur = "sample_quiet False"
        and body_token = None and header_token = "Some ''s3cret''" and id_param = "''9''"
        and n = 9 and w = sample_catalog, OF auth sample_parse(3) _ quiet, THEN conjunct1]
    by simp
  have raced: "fst (delete_track sample_env_local sample_racing None (Some ''s3cret'')
                     ''1'' sample_catalog) = Response 404 (ErrorBody TrackNotFound)"
    using delete_track_outcomes [where e = sample_env_local and sur = sample_racing
        and body_token = None and header_token = "Some ''s3cret''" and id_param = "''1''"
        and n = 1 and w = sample_catalog, OF auth sample_parse(1) _ racing, THEN conjunct1]
    by simp

  have found1: "find (\<lambda>t. track_id t = 1) (tracks sample_catalog) = Some ?row1
                \<and> (\<exists>t \<in> set (del_meanwhile (sample_quiet refused) (tracks sample_catalog)).
                      track_id t = 1)" for refused
    by simp
  have local: "fst (delete_track sample_env_local (sample_quiet refused) None (Some ''s3cret'')
                     ''1'' sample_catalog) = Response 200 SuccessBody
      \<and> tracks (snd (delete_track sample_env_local (sample_quiet refused) None (Some ''s3cret'')
                     ''1'' sample_catalog)) = [?row2]
      \<and> unlink_calls (snd (delete_track sample_env_local (sample_quiet refused) None
                     (Some ''s3cret'') ''1'' sample_catalog)) = [''/app/uploads/17_a.mp3'']
      \<and> files (snd (delete_track sample_env_local (sample_quiet refused) None (Some ''s3cret'')
                     ''1'' sample_catalog))
           = (if refused then {''/app/uploads/17_a.mp3''} else {})" for refused
  proof -
    note all = delete_track_outcomes [where e = sample_env_local and sur = "sample_quiet refused"
        and body_token = None and header_token = "Some ''s3cret''" and id_param = "''1''"
        and n = 1 and w = sample_catalog, OF auth sample_parse(1) _ quiet, THEN conjunct2,
        THEN spec, of ?row1, THEN mp, OF _ found1]
    have "(1::int) \<noteq> 0" by simp
    note facts = all [OF this]
    from facts have reply: "fst (delete_track sample_env_local (sample_quiet refused) None
        (Some ''s3cret'') ''1'' sample_catalog) = Response 200 SuccessBody"
      by (rule conjunct1)
    from facts have rows: "tracks (snd (delete_track sample_env_local (sample_quiet refused) None
        (Some ''s3cret'') ''1'' sample_catalog))
        = filter (\<lambda>t. track_id t \<noteq> 1) (del_meanwhile (sample_quiet refused) (tracks sample_catalog))"
      by (rule conjunct1 [OF conjunct2])
    from facts local_url
    have calls: "unlink_calls (snd (delete_track sample_env_local (sample_quiet refused) None
        (Some ''s3cret'') ''1'' sample_catalog))
        = unlink_calls sample_catalog @ [local_file_of sample_env_local (track_url ?row1)]"
      and disk: "files (snd (delete_track sample_env_local (sample_quiet refused) None
        (Some ''s3cret'') ''1'' sample_catalog))
        = (if del_unlink_refused (sample_quiet refused) then files sample_catalog
           else files sample_catalog - {local_file_of sample_env_local (track_url ?row1)})"
      by blast+
    from reply rows calls disk show ?thesis
      by (simp add: sample_local_file)
  qed

  have found2: "find (\<lambda>t. track_id t = 2) (tracks sample_catalog) = Some ?row2
                \<and> (\<exists>t \<in> set (del_meanwhile (sample_quiet False) (tracks sample_catalog)).
                      track_id t = 2)"
    by simp
  have remote: "fst (delete_track sample_env_local (sample_quiet False) None (Some ''s3cret'')
                     ''2'' sample_catalog) = Response 200 SuccessBody
      \<and> unlink_calls (snd (delete_track sample_env_local (sample_quiet False) None
                     (Some ''s3cret'') ''2'' sample_catalog)) = []
      \<and> files (snd (delete_track sample_env_local (sample_quiet False) None (Some ''s3cret'')
                     ''2'' sample_catalog)) = {''/app/uploads/17_a.mp3''}"
  proof -
    have "(2::int) \<noteq> 0" by simp
    note facts = delete_track_outcomes [where e = sample_env_local and sur = "sample_quiet False"
        and body_token = None and header_token = "Some ''s3cret''" and id_param = "''2''"
        and n = 2 and w = sample_catalog, OF auth sample_parse(2) this quiet, THEN conjunct2,
        THEN spec, of ?row2, THEN mp, OF found2]
    from facts remote_url
    have "fst (delete_track sample_env_local (sample_quiet False) None (Some ''s3cret'')
                ''2'' sample_catalog) = Response 200 SuccessBody"
      and "unlink_calls (snd (delete_track sample_env_local (sample_quiet False) None
                (Some ''s3cret'') ''2'' sample_catalog)) = unlink_calls sample_catalog"
      and "files (snd (delete_track sample_env_local (sample_quiet False) None (Some ''s3cret'')
                ''2'' sample_catalog)) = files sample_catalog"
      by blast+
    then show ?thesis by simp
  qed
  from auth unknown raced local [of False] local [of True] remote app(2,3) show ?thesis
    by (simp add: sample_parse starts_with_def absolute_path_def)
qed

text \<open>
  A url with \<^verbatim>\<open>..\<close> in it is resolved as \<^verbatim>\<open>path.join\<close> resolves it: for the url
  \<^verbatim>\<open>/uploads/../x.txt\<close> the path handed to \<^verbatim>\<open>fs.unlink\<close> is \<^verbatim>\<open>/app/x.txt\<close>, outside the
  uploads directory, and that file is removed.
\<close>

lemma delete_track_resolves_dot_dot:
  "delete_track sample_env_local (sample_quiet False) None (Some ''s3cret'') ''5''
     \<lparr>users = [],
      tracks = [\<lparr>track_id = 5, track_title = ''Stray'', track_artist = None,
                 track_url = ''/uploads/../x.txt''\<rparr>],
      next_track_id = 6, files = {''/app/x.txt'', ''/app/uploads/17_a.mp3''},
      unlink_calls = []\<rparr>
   = (Response 200 SuccessBody,
      \<lparr>users = [], tracks = [], next_track_id = 6, files = {''/app/uploads/17_a.mp3''},
       unlink_calls = [''/app/x.txt'']\<rparr>)"
  by (simp add: delete_track_def requireOwner_iff sample_secrets parseInt10_def is_space_def
      is_digit_def digits_value_def starts_with_def sample_local_file fs_unlink_def Let_def)

section \<open>Names of staged files\<close>

text \<open>
  The part of the name before the extension is safe: the digits of the time stamp, the
  underscore, and a base name in which every other character has been replaced by an
  underscore. The extension is taken from the original name as it is. It cannot hold a
  slash, so the name stays inside the uploads directory.
\<close>

lemma sanitize_safe: "\<forall>c \<in> set (sanitize s). safe_char c"
  by (auto simp: sanitize_def safe_char_def)

lemma digit_char_safe: "d < 10 \<Longrightarrow> safe_char (digit_char d)"
proof -
  assume "d < 10"
  then have "d \<in> {0, 1, 2, 3, 4, 5, 6, 7, 8, 9}" by auto
  then show ?thesis
    by (auto simp: digit_char_def safe_char_def)
qed

lemma show_nat_safe: "\<forall>c \<in> set (show_nat n). safe_char c"
proof (induction n rule: show_nat.induct)
  case (1 n)
  show ?case
  proof (cases "n < 10")
    case True
    then show ?thesis
      by (subst show_nat.simps) (simp add: digit_char_safe)
  next
    case False
    with 1 show ?thesis
      by (subst show_nat.simps) (simp add: digit_char_safe)
  qed
qed

lemma last_component_no_slash: "CHR ''/'' \<notin> set (last_component p)"
  by (auto simp: last_component_def dest: set_takeWhileD)

lemma path_extname_no_slash: "CHR ''/'' \<notin> set (path_extname p)"
proof -
  have "set (rev (takeWhile (\<lambda>x. x \<noteq> CHR ''.'') (rev (last_component p))))
          \<subseteq> set (last_component p)"
    by (auto dest: set_takeWhileD)
  with last_component_no_slash [of p] show ?thesis
    by (auto simp: path_extname_def Let_def)
qed

lemma storage_filename_no_slash: "CHR ''/'' \<notin> set (storage_filename now originalname)"
proof -
  have "\<not> safe_char (CHR ''/'')" by (simp add: safe_char_def)
  with sanitize_safe show_nat_safe path_extname_no_slash [of originalname] show ?thesis
    by (auto simp: storage_filename_def Let_def)
qed

text \<open>
  C6. The extension of the original name reaches the staged file's name unsanitized: for
  the original name \<^verbatim>\<open>song.mp3?x=1\<close> at time 1700000000000 the staged name is
  \<^verbatim>\<open>1700000000000_song.mp3?x=1\<close>, which holds the character \<^verbatim>\<open>?\<close>, outside the safe set
  and not the extension's leading dot.
\<close>

theorem storage_filename_keeps_unsafe_extension:
  "storage_filename 1700000000000 ''song.mp3?x=1'' = ''1700000000000_song.mp3?x=1''
   \<and> CHR ''?'' \<in> set (storage_filename 1700000000000 ''song.mp3?x=1'')
   \<and> \<not> safe_char (CHR ''?'')"
  by (simp add: storage_filename_def path_extname_def path_basename_def ends_with_def
      last_component_def strip_trailing_slashes_def sanitize_def safe_char_def show_nat.simps
      digit_char_def)

section \<open>Process start\<close>

text \<open>
  Against C7 as it is stated (a failing DDL statement is fatal to startup and the process
  does not go on to serve requests): when already the first statement fails, no table is
  created, the error is written to the error console, and the process is listening all
  the same.
\<close>

theorem startup_survives_ddl_failure_counterexample:
  "listening (startup (sample_faults (Some ''ECONNREFUSED'') None None None))
   \<and> applied (startup (sample_faults (Some ''ECONNREFUSED'') None None None)) = []
   \<and> console_error (startup (sample_faults (Some ''ECONNREFUSED'') None None None))
       = [DbInitError ''ECONNREFUSED'']"
  by (simp add: initDb_def startup_def)

text \<open>
  C7, as the code has it. Whatever the four DDL statements do, the process ends up
  listening. When one of them fails, exactly the statements before it have run, none
  after it, and the error of that statement is written to the error console.
\<close>

theorem startup_logs_ddl_failure_and_listens:
  "listening (startup fl)
   \<and> (fault_create_users fl = Some m \<longrightarrow>
         applied (startup fl) = [] \<and> console_error (startup fl) = [DbInitError m])
   \<and> (fault_create_users fl = None \<and> fault_create_tracks fl = Some m \<longrightarrow>
         applied (startup fl) = [CreateUsers] \<and> console_error (startup fl) = [DbInitError m])
   \<and> (fault_create_users fl = None \<and> fault_create_tracks fl = None
        \<and> fault_add_likes fl = Some m \<longrightarrow>
         applied (startup fl) = [CreateUsers, CreateTracks]
       \<and> console_error (startup fl) = [DbInitError m])
   \<and> (fault_create_users fl = None \<and> fault_create_tracks fl = None
        \<and> fault_add_likes fl = None \<and> fault_add_playlists fl = Some m \<longrightarrow>
         applied (startup fl) = [CreateUsers, CreateTracks, AddLikesColumn]
       \<and> console_error (startup fl) = [DbInitError m])"
  by (simp add: startup_def initDb_def)

theorem startup_logs_ddl_failure_and_listens_witness:
  "fault_create_users (sample_faults (Some ''ECONNREFUSED'') None None None)
     = Some ''ECONNREFUSED''
   \<and> applied (startup (sample_faults (Some ''ECONNREFUSED'') None None None)) = []
   \<and> console_error (startup (sample_faults (Some ''ECONNREFUSED'') None None None))
       = [DbInitError ''ECONNREFUSED'']
   \<and> listening (startup (sample_faults (Some ''ECONNREFUSED'') None None None))
   \<and> fault_create_tracks (sample_faults None (Some ''disk full'') None None) = Some ''disk full''
   \<and> applied (startup (sample_faults None (Some ''disk full'') None None)) = [CreateUsers]
   \<and> fault_add_likes (sample_faults None None (Some ''permission denied'') None)
       = Some ''permission denied''
   \<and> applied (startup (sample_faults None None (Some ''permission denied'') None))
       = [CreateUsers, CreateTracks]
   \<and> console_error (startup (sample_faults None None (Some ''permission denied'') None))
       = [DbInitError ''permission denied'']
   \<and> listening (startup (sample_faults None None (Some ''permission denied'') None))
   \<and> fault_add_playlists (sample_faults None None None (Some ''timeout'')) = Some ''timeout''
   \<and> applied (startup (sample_faults None None None (Some ''timeout'')))
       = [CreateUsers, CreateTracks, AddLikesColumn]
   \<and> console_error (startup (sample_faults None None None (Some ''timeout'')))
       = [DbInitError ''timeout'']"
  using
    startup_logs_ddl_failure_and_listens
      [where fl = "sample_faults (Some ''ECONNREFUSED'') None None None" and m = "''ECONNREFUSED''"]
    startup_logs_ddl_failure_and_listens
      [where fl = "sample_faults None (Some ''disk full'') None None" and m = "''disk full''"]
    startup_logs_ddl_failure_and_listens
      [where fl = "sample_faults None None (Some ''permission denied'') None"
         and m = "''permission denied''"]
    startup_logs_ddl_failure_and_listens
      [where fl = "sample_faults None None None (Some ''timeout'')" and m = "''timeout''"]
  by simp

section \<open>Logging in\<close>

text \<open>
  When \<^verbatim>\<open>bcrypt.compare\<close> answers that the password does not match, the reply is the same
  as for an address that has no account: status 401 with the one message for a wrong
  email or password.
\<close>

lemma login_wrong_password_same_reply:
  assumes "find (\<lambda>u. user_email u = toLowerCase unknown) rows_unknown = None"
      and "find (\<lambda>u. user_email u = toLowerCase known) rows_known = Some user"
      and "compare password_known (user_password user) = Inr False"
  shows "login compare None (Some (JStr unknown)) password_unknown rows_unknown
           = Response 401 (ErrorBody InvalidEmailOrPassword)
       \<and> login compare None (Some (JStr known)) password_known rows_known
           = login compare None (Some (JStr unknown)) password_unknown rows_unknown"
  using assms by (simp add: login_def Let_def)

text \<open>
  When \<^verbatim>\<open>bcrypt.compare\<close> rejects, the handler's \<^verbatim>\<open>catch\<close> answers 500 with the message of
  the error. The compare is reached only for an address that has an account, so a
  password that makes it reject tells the two cases apart.
\<close>

lemma login_compare_rejects:
  assumes "find (\<lambda>u. user_email u = toLowerCase known) rows = Some user"
      and "compare password (user_password user) = Inl m"
  shows "login compare None (Some (JStr known)) password rows
           = Response 500 (ErrorBody (DbError m))"
  using assms by (simp add: login_def Let_def)

lemma login_unknown_address:
  assumes "find (\<lambda>u. user_email u = toLowerCase unknown) rows = None"
  shows "login compare None (Some (JStr unknown)) password rows
           = Response 401 (ErrorBody InvalidEmailOrPassword)"
  using assms by (simp add: login_def Let_def)

lemma login_without_string_password:
  assumes "find (\<lambda>u. user_email u = toLowerCase known) rows = Some user"
      and "find (\<lambda>u. user_email u = toLowerCase unknown) rows = None"
      and "\<forall>s. password \<noteq> Some (JStr s)"
  shows "status (login (bcrypt_compare matches) None (Some (JStr known)) password rows) = 500
       \<and> status (login (bcrypt_compare matches) None (Some (JStr unknown)) password rows) = 401"
proof -
  have "\<exists>m. bcrypt_compare matches password (user_password user) = Inl m"
  proof (cases password)
    case None
    then show ?thesis by (simp add: bcrypt_compare_def)
  next
    case (Some v)
    with assms(3) show ?thesis
      by (cases v) (simp_all add: bcrypt_compare_def)
  qed
  then obtain m where rejects: "bcrypt_compare matches password (user_password user) = Inl m"
    by blast
  have "login (bcrypt_compare matches) None (Some (JStr known)) password rows
          = Response 500 (ErrorBody (DbError m))"
    using assms(1) rejects
    by (rule login_compare_rejects [where compare = "bcrypt_compare matches"])
  with login_unknown_address [OF assms(2)] show ?thesis
    by simp
qed

text \<open>
  C8. Two logins that fail, both without a password: for the address
  \<^verbatim>\<open>alice@example.com\<close>, which has an account, the reply is 500 with the message of the
  error that \<^verbatim>\<open>bcrypt.compare\<close> raises; for \<^verbatim>\<open>bob@example.com\<close>, which has none, the reply
  is 401 with the message for a wrong email or password. The reply shows which of the
  two addresses has an account.
\<close>

theorem login_without_password_tells_accounts_apart:
  "login (bcrypt_compare sample_matches) None (Some (JStr ''alice@example.com'')) None
     [sample_user]
     = Response 500 (ErrorBody (DbError ''data and hash arguments required''))
   \<and> login (bcrypt_compare sample_matches) None (Some (JStr ''bob@example.com'')) None
       [sample_user]
       = Response 401 (ErrorBody InvalidEmailOrPassword)"
  by (simp add: login_def bcrypt_compare_def toLowerCase_def to_lower_char_def Let_def)

section \<open>Replacing likes and playlists\<close>

lemma update_missing_user_keeps_rows:
  assumes "\<forall>u \<in> set rows. user_id u \<noteq> n"
  shows "map (\<lambda>u. if user_id u = n then f u else u) rows = rows"
  using assms by (induction rows) auto

text \<open>
  C10. For a valid id (one that parses to a non-zero integer) that no row of \<^verbatim>\<open>users\<close>
  has, and any array, both replace operations answer with the success reply that echoes
  the array, and leave the state as it was, provided the UPDATE statement itself does not
  raise: the missing user is a silent no-op, not a 404.
\<close>

theorem replace_for_missing_user_is_silent:
  assumes "parseInt10 id_param = Some n" and "n \<noteq> 0"
      and "\<forall>u \<in> set (users w). user_id u \<noteq> n"
  shows "put_likes None id_param (Some (JArr xs)) w = (Response 200 (SuccessLikes (JArr xs)), w)
       \<and> put_playlists None id_param (Some (JArr xs)) w
           = (Response 200 (SuccessPlaylists (JArr xs)), w)"
  using assms update_missing_user_keeps_rows [OF assms(3)]
  by (simp add: put_likes_def put_playlists_def)

theorem replace_for_missing_user_is_silent_witness:
  "parseInt10 ''7'' = Some 7 \<and> (7::int) \<noteq> 0
   \<and> filter (\<lambda>u. user_id u = 7) (users sample_accounts) = []
   \<and> put_likes None ''7'' (Some (JArr [JNum 3, JNum 5])) sample_accounts
       = (Response 200 (SuccessLikes (JArr [JNum 3, JNum 5])), sample_accounts)
   \<and> put_playlists None ''7'' (Some (JArr [JNum 3, JNum 5])) sample_accounts
       = (Response 200 (SuccessPlaylists (JArr [JNum 3, JNum 5])), sample_accounts)"
  using replace_for_missing_user_is_silent [where id_param = "''7''" and n = 7
      and w = sample_accounts and xs = "[JNum 3, JNum 5]"]
  by (simp add: parseInt10_def is_space_def is_digit_def digits_value_def)

end
